theory Spec2Isabelle
  imports Complex_Main
begin

chapter \<open>SICOP document front end: a shallow embedding\<close>

text \<open>
  The sources are the browser modules \<^verbatim>\<open>PdfHandler.js\<close>, \<^verbatim>\<open>FileHandler.js\<close>,
  \<^verbatim>\<open>chatHandler.js\<close>, \<^verbatim>\<open>TableRenderer.js\<close> and \<^verbatim>\<open>DocumentDetails.js\<close>. Each method
  becomes a function on an explicit page state: the fields of the handler objects, the DOM
  elements the methods touch (absent elements are \<open>None\<close>), and logs of what leaves the
  page (alerts, console errors, HTTP requests, uncaught exceptions). The answer of
  every \<^verbatim>\<open>fetch\<close> is an argument of the method that awaits it.
\<close>

section \<open>JavaScript values\<close>

text \<open>
  The values the modules handle dynamically. Numbers are integers (identifiers, byte
  counts, page counts); an object is the list of its own properties; \<open>JFun\<close> is a
  built-in function, known by its name only. Strings are lists of 8-bit code units, so a
  letter outside ASCII is written by its Latin-1 code (\<open>CHR 0xF3\<close> is o with acute).
\<close>

datatype jsval =
    JUndefined
  | JNull
  | JBool bool
  | JNum int
  | JStr string
  | JObj "(string \<times> jsval) list"
  | JFun string

fun truthy :: "jsval \<Rightarrow> bool" where
  "truthy JUndefined = False"
| "truthy JNull = False"
| "truthy (JBool b) = b"
| "truthy (JNum n) = (n \<noteq> 0)"
| "truthy (JStr s) = (s \<noteq> [])"
| "truthy (JObj ps) = True"
| "truthy (JFun f) = True"

text \<open>\<^verbatim>\<open>a || b\<close>\<close>

definition js_or :: "jsval \<Rightarrow> jsval \<Rightarrow> jsval" where
  "js_or a b = (if truthy a then a else b)"

fun digits :: "nat \<Rightarrow> string" where
  "digits n =
    (if n < 10 then [char_of (48 + n)] else digits (n div 10) @ [char_of (48 + n mod 10)])"

declare digits.simps [simp del]

definition show_int :: "int \<Rightarrow> string" where
  "show_int n = (if n < 0 then CHR ''-'' # digits (nat (- n)) else digits (nat n))"

text \<open>
  String conversion, as string concatenation, template literals, property keys and
  \<^verbatim>\<open>textContent\<close> apply it. An integer prints in decimal.
\<close>

fun toStr :: "jsval \<Rightarrow> string" where
  "toStr JUndefined = ''undefined''"
| "toStr JNull = ''null''"
| "toStr (JBool b) = (if b then ''true'' else ''false'')"
| "toStr (JNum n) = show_int n"
| "toStr (JStr s) = s"
| "toStr (JObj ps) = ''[object Object]''"
| "toStr (JFun f) = ''function '' @ f @ ''() { [native code] }''"

text \<open>
  An object literal inherits from \<^verbatim>\<open>Object.prototype\<close>: a property read that finds no own
  property continues there. These are the properties every browser defines on it.
\<close>

definition Object_prototype :: "(string \<times> jsval) list" where
  "Object_prototype =
    [(''constructor'', JFun ''Object''),
     (''__defineGetter__'', JFun ''__defineGetter__''),
     (''__defineSetter__'', JFun ''__defineSetter__''),
     (''hasOwnProperty'', JFun ''hasOwnProperty''),
     (''__lookupGetter__'', JFun ''__lookupGetter__''),
     (''__lookupSetter__'', JFun ''__lookupSetter__''),
     (''isPrototypeOf'', JFun ''isPrototypeOf''),
     (''propertyIsEnumerable'', JFun ''propertyIsEnumerable''),
     (''toString'', JFun ''toString''),
     (''valueOf'', JFun ''valueOf''),
     (''__proto__'', JObj []),
     (''toLocaleString'', JFun ''toLocaleString'')]"

text \<open>\<^verbatim>\<open>obj[key]\<close> on an object with the own properties \<open>props\<close>.\<close>

definition obj_get :: "(string \<times> jsval) list \<Rightarrow> string \<Rightarrow> jsval" where
  "obj_get props key =
    (case map_of props key of
       Some v \<Rightarrow> v
     | None \<Rightarrow> (case map_of Object_prototype key of Some v \<Rightarrow> v | None \<Rightarrow> JUndefined))"

datatype js_error = HttpError nat | FetchFailed | BadJson | TypeError

text \<open>
  \<^verbatim>\<open>data.key\<close> on a parsed JSON value, for the keys the modules read (\<^verbatim>\<open>response\<close>,
  \<^verbatim>\<open>error\<close>, \<^verbatim>\<open>success\<close>): reading a property of \<^verbatim>\<open>null\<close> or \<^verbatim>\<open>undefined\<close> throws a TypeError, and
  a number, string or boolean has no such property.
\<close>

fun js_get :: "jsval \<Rightarrow> string \<Rightarrow> js_error + jsval" where
  "js_get JUndefined key = Inl TypeError"
| "js_get JNull key = Inl TypeError"
| "js_get (JObj ps) key = Inr (obj_get ps key)"
| "js_get v key = Inr JUndefined"

text \<open>A field that holds a string when the key is there: \<open>None\<close> is \<^verbatim>\<open>undefined\<close>.\<close>

definition str_val :: "string option \<Rightarrow> jsval" where
  "str_val f = (case f of None \<Rightarrow> JUndefined | Some s \<Rightarrow> JStr s)"

section \<open>Strings\<close>

text \<open>\<^verbatim>\<open>String.prototype.trim\<close>, \<^verbatim>\<open>toLowerCase\<close> and \<^verbatim>\<open>includes\<close> on Latin-1 code units.\<close>

definition isWhiteSpace :: "char \<Rightarrow> bool" where
  "isWhiteSpace c = (of_char c \<in> {9, 10, 11, 12, 13, 32, 160 :: nat})"

definition trim :: "string \<Rightarrow> string" where
  "trim s = rev (dropWhile isWhiteSpace (rev (dropWhile isWhiteSpace s)))"

definition lowerChar :: "char \<Rightarrow> char" where
  "lowerChar c =
    (let n = of_char c :: nat
     in if (65 \<le> n \<and> n \<le> 90) \<or> (192 \<le> n \<and> n \<le> 222 \<and> n \<noteq> 215)
        then char_of (n + 32) else c)"

definition toLowerCase :: "string \<Rightarrow> string" where
  "toLowerCase s = map lowerChar s"

fun includes_str :: "string \<Rightarrow> string \<Rightarrow> bool" where
  "includes_str [] q = (q = [])"
| "includes_str (c # cs) q = (take (length q) (c # cs) = q \<or> includes_str cs q)"

section \<open>What the JavaScript engine prints\<close>

text \<open>
  Number and date formatting are the engine's (double-precision floating point, locale
  data), and so is the logarithm: the language leaves the value of \<^verbatim>\<open>Math.log\<close> to the
  implementation. They are taken as given functions:
  \<open>fixedText d x\<close> is \<^verbatim>\<open>x.toFixed(d)\<close> for the number nearest to \<open>x\<close>;
  \<open>logIndex n\<close> is the value of \<^verbatim>\<open>Math.floor(Math.log(n) / Math.log(1024))\<close> for a positive
  integer \<open>n\<close>;
  \<open>shortText n i\<close> is what \<^verbatim>\<open>parseFloat((n / Math.pow(1024, i)).toFixed(2))\<close> prints;
  \<open>dateShort\<close> and \<open>dateLong\<close> are the two \<^verbatim>\<open>toLocaleDateString('es-ES', ...)\<close> calls;
  \<open>jsonText v\<close> is \<^verbatim>\<open>JSON.stringify(v, null, 2)\<close>.
\<close>

record engine =
  fixedText :: "nat \<Rightarrow> rat \<Rightarrow> string"
  logIndex :: "int \<Rightarrow> int"
  shortText :: "int \<Rightarrow> int \<Rightarrow> string"
  dateShort :: "jsval \<Rightarrow> string"
  dateLong :: "jsval \<Rightarrow> string"
  jsonText :: "jsval \<Rightarrow> string"

section \<open>Status labels and file sizes (TableRenderer, DocumentDetails, FileHandler)\<close>

definition statusMap :: "(string \<times> jsval) list" where
  "statusMap =
    [(''pendiente'', JStr ''Pendiente''),
     (''procesando'', JStr ''Procesando''),
     (''procesado'', JStr ''Procesado''),
     (''error'', JStr ''Error''),
     (''pending'', JStr ''Pendiente''),
     (''processing'', JStr ''Procesando''),
     (''completed'', JStr ''Completado'')]"

text \<open>\<^verbatim>\<open>return statusMap[status] || status;\<close>\<close>

definition getStatusText :: "jsval \<Rightarrow> jsval" where
  "getStatusText status = js_or (obj_get statusMap (toStr status)) status"

text \<open>The argument of \<^verbatim>\<open>formatFileSize\<close>: a byte count, or a missing one.\<close>

datatype size_val = SizeUndefined | SizeNull | SizeNum int

definition sizes :: "string list" where
  "sizes = [''B'', ''KB'', ''MB'', ''GB'']"

text \<open>\<^verbatim>\<open>sizes[i]\<close> for an integral index: \<^verbatim>\<open>undefined\<close> outside the array.\<close>

definition sizes_at :: "int \<Rightarrow> jsval" where
  "sizes_at i = (if 0 \<le> i \<and> i < int (length sizes) then JStr (sizes ! nat i) else JUndefined)"

text \<open>
  The three copies of \<^verbatim>\<open>formatFileSize\<close> are the same text. The unit index \<open>i\<close> is the
  engine's. The logarithm of a negative number is \<^verbatim>\<open>NaN\<close>, which no unit is indexed by.
\<close>

definition formatFileSize :: "engine \<Rightarrow> size_val \<Rightarrow> string" where
  "formatFileSize eng bytes =
    (case bytes of
       SizeUndefined \<Rightarrow> ''0 B''
     | SizeNull \<Rightarrow> ''0 B''
     | SizeNum n \<Rightarrow>
         if n = 0 then ''0 B''
         else if n < 0 then ''NaN undefined''
         else
           let i = logIndex eng n
           in shortText eng n i @ '' '' @ toStr (sizes_at i))"

text \<open>\<^verbatim>\<open>!bytes\<close>\<close>

definition size_falsy :: "size_val \<Rightarrow> bool" where
  "size_falsy bytes = (case bytes of SizeNum n \<Rightarrow> n = 0 | _ \<Rightarrow> True)"

section \<open>Documents and the page\<close>

record content_info =
  total_pages :: int
  total_chars :: int
  has_images :: bool
  images_with_text :: int
  has_text :: bool

text \<open>A document as \<^verbatim>\<open>GET /api/documents\<close> serialises it.\<close>

record doc =
  doc_id :: int
  nombre_pdf :: "string option"
  filename :: "string option"
  estado_procesamiento :: "string option"
  tamano_archivo :: size_val
  fecha_hora_recepcion :: "string option"
  dominio_origen :: "string option"
  url_google_drive :: "string option"
  content_info :: "content_info option"
  processing_info :: "(string \<times> jsval) list option"
  contenido_json :: jsval

record input_el =
  el_value :: string
  el_disabled :: bool
  el_placeholder :: string

record button_el =
  btn_disabled :: bool
  btn_text :: string

text \<open>A child of \<^verbatim>\<open>#chatMessages\<close>: the system notice, or a message with its sender class.\<close>

datatype chat_node = SystemMessage string | ChatMessage string string

text \<open>A row of the documents table: the placeholder, or the row rendered from a document.\<close>

datatype table_row = EmptyState | DocRow doc

text \<open>
  A toast of \<^verbatim>\<open>PdfHandler.showMessage\<close>: its text, the caught error whose
  \<^verbatim>\<open>message\<close> is appended to the text, and its type.
\<close>

record toast =
  toast_text :: string
  toast_error :: "js_error option"
  toast_type :: string

record upload_message =
  um_text :: string
  um_type :: string
  um_show :: bool

record js_file =
  file_name :: string
  file_type :: string
  file_size :: nat

datatype req_body = NoBody | JsonBody "(string \<times> jsval) list" | FormData "(string \<times> js_file) list"

record request =
  req_method :: string
  req_url :: string
  req_headers :: "(string \<times> string) list"
  req_body :: req_body

text \<open>
  How a \<^verbatim>\<open>fetch\<close> ends: the promise rejects, or a response arrives with its \<^verbatim>\<open>ok\<close> flag,
  its status and its body as \<^verbatim>\<open>response.json()\<close> parses it (\<open>None\<close>: not JSON).
\<close>

datatype 'b fetch_result = NetworkError | HttpResponse bool nat "'b option"

text \<open>
  The body of \<^verbatim>\<open>GET /api/documents\<close>: JSON \<^verbatim>\<open>null\<close>, or a value whose \<^verbatim>\<open>data\<close> member
  is missing (\<open>None\<close>) or an object with an optional list \<^verbatim>\<open>documentos\<close>.
\<close>

record docs_data =
  documentos :: "doc list option"

datatype docs_body = BodyNull | BodyObj "docs_data option"

record page =
  documents :: "doc list"
  selectedDocument :: "doc option"
  currentFilter :: string
  tableRenderer :: bool
  selectedFile :: "js_file option"
  isUploading :: bool
  chatHandler :: bool
  currentDocumentId :: "int option"
  chatInput :: "input_el option"
  sendChatBtn :: "button_el option"
  chatStatus :: "string option"
  chatTitle :: "string option"
  chatMessages :: "chat_node list option"
  tbody :: "table_row list option"
  messageContainer :: "toast list option"
  uploadMessage :: "upload_message option"
  fileInfo :: "string option"
  progressContainer :: "bool option"
  submitContainer :: "bool option"
  pdfFile :: string
  alerts :: "string list"
  console :: "js_error list"
  requests :: "request list"
  uncaught :: "js_error list"

text \<open>An exception no handler catches: the state stays as it is, the error is logged.\<close>

definition throw :: "js_error \<Rightarrow> page \<Rightarrow> page" where
  "throw e p = p\<lparr>uncaught := uncaught p @ [e]\<rparr>"

definition alert :: "string \<Rightarrow> page \<Rightarrow> page" where
  "alert msg p = p\<lparr>alerts := alerts p @ [msg]\<rparr>"

definition fetch :: "request \<Rightarrow> page \<Rightarrow> page" where
  "fetch r p = p\<lparr>requests := requests p @ [r]\<rparr>"

text \<open>The text of \<^verbatim>\<open>error.message\<close> where the source builds it.\<close>

definition error_message :: "js_error \<Rightarrow> string option" where
  "error_message e =
    (case e of HttpError st \<Rightarrow> Some (''HTTP error! status: '' @ digits st) | _ \<Rightarrow> None)"

section \<open>TableRenderer\<close>

definition or_empty :: "string option \<Rightarrow> string" where
  "or_empty f = (case f of None \<Rightarrow> [] | Some s \<Rightarrow> s)"

definition renderTable :: "doc list \<Rightarrow> string \<Rightarrow> string \<Rightarrow> page \<Rightarrow> page" where
  "renderTable docs currentFilter' searchQuery p =
    (case tbody p of
       None \<Rightarrow> p
     | Some old \<Rightarrow>
         let filteredDocs = docs;
             filteredDocs =
               (if currentFilter' \<noteq> ''todos''
                then filter (\<lambda>d. estado_procesamiento d = Some currentFilter') filteredDocs
                else filteredDocs);
             filteredDocs =
               (if trim searchQuery \<noteq> []
                then
                  let query = toLowerCase searchQuery
                  in filter (\<lambda>d.
                       includes_str (toLowerCase (or_empty (nombre_pdf d))) query \<or>
                       includes_str (toLowerCase (or_empty (filename d))) query \<or>
                       includes_str (toLowerCase (or_empty (dominio_origen d))) query) filteredDocs
                else filteredDocs)
         in if length filteredDocs = 0
            then p\<lparr>tbody := Some [EmptyState]\<rparr>
            else p\<lparr>tbody := Some (map DocRow filteredDocs)\<rparr>)"

text \<open>The cells of a document's row, escaping aside.\<close>

definition formatDate :: "engine \<Rightarrow> jsval \<Rightarrow> string" where
  "formatDate eng dateString = (if \<not> truthy dateString then ''N/A'' else dateShort eng dateString)"

definition docName :: "doc \<Rightarrow> string" where
  "docName d =
    toStr (js_or (str_val (nombre_pdf d)) (js_or (str_val (filename d)) (JStr ''Sin nombre'')))"

definition rowCells :: "engine \<Rightarrow> doc \<Rightarrow> string list" where
  "rowCells eng d =
    [docName d,
     formatDate eng (str_val (fecha_hora_recepcion d)),
     toStr (getStatusText (str_val (estado_procesamiento d))),
     formatFileSize eng (tamano_archivo d)]"

section \<open>ChatHandler\<close>

definition clearMessages :: "page \<Rightarrow> page" where
  "clearMessages p = p\<lparr>chatMessages := map_option (\<lambda>old. []) (chatMessages p)\<rparr>"

definition enableChat :: "int \<Rightarrow> page \<Rightarrow> page" where
  "enableChat documentId p =
    (let p1 = p\<lparr>currentDocumentId := Some documentId\<rparr>;
         p2 = p1\<lparr>chatInput := map_option
                (\<lambda>i. i\<lparr>el_disabled := False,
                        el_placeholder := ''Escribe tu pregunta sobre el documento...''\<rparr>)
                (chatInput p1)\<rparr>;
         p3 = p2\<lparr>sendChatBtn := map_option (\<lambda>b. b\<lparr>btn_disabled := False\<rparr>) (sendChatBtn p2)\<rparr>;
         p4 = p3\<lparr>chatStatus := map_option
                (\<lambda>old. ''<p>Documento seleccionado. '' @ [CHR 0xA1] @ ''Puedes hacer preguntas!</p>'')
                (chatStatus p3)\<rparr>
     in clearMessages p4)"

definition disableChat :: "page \<Rightarrow> page" where
  "disableChat p =
    (let p1 = p\<lparr>currentDocumentId := None\<rparr>;
         p2 = p1\<lparr>chatInput := map_option
                (\<lambda>i. i\<lparr>el_disabled := True,
                        el_placeholder := ''Selecciona un documento para hacer preguntas...'',
                        el_value := []\<rparr>)
                (chatInput p1)\<rparr>;
         p3 = p2\<lparr>sendChatBtn := map_option (\<lambda>b. b\<lparr>btn_disabled := True\<rparr>) (sendChatBtn p2)\<rparr>;
         p4 = p3\<lparr>chatStatus := map_option
                (\<lambda>old. ''<p>Selecciona un documento de la tabla para comenzar a chatear</p>'')
                (chatStatus p3)\<rparr>
     in clearMessages p4)"

definition addMessage :: "string \<Rightarrow> string \<Rightarrow> page \<Rightarrow> page" where
  "addMessage txt sender p =
    p\<lparr>chatMessages := map_option (\<lambda>ms. ms @ [ChatMessage sender txt]) (chatMessages p)\<rparr>"

definition setLoading :: "bool \<Rightarrow> page \<Rightarrow> page" where
  "setLoading loading p =
    (let p1 = p\<lparr>sendChatBtn := map_option
                (\<lambda>b. b\<lparr>btn_disabled := loading,
                        btn_text := (if loading then ''Enviando...'' else ''Enviar'')\<rparr>)
                (sendChatBtn p)\<rparr>
     in p1\<lparr>chatInput := map_option (\<lambda>i. i\<lparr>el_disabled := loading\<rparr>) (chatInput p1)\<rparr>)"

text \<open>\<^verbatim>\<open>!this.currentDocumentId\<close>: \<^verbatim>\<open>null\<close> and the number 0 are both falsy.\<close>

definition id_set :: "int option \<Rightarrow> bool" where
  "id_set i = (case i of None \<Rightarrow> False | Some n \<Rightarrow> n \<noteq> 0)"

definition chat_request :: "string \<Rightarrow> int \<Rightarrow> request" where
  "chat_request message documentId =
    \<lparr>req_method = ''POST'', req_url = ''/chat/message'',
     req_headers = [(''Content-Type'', ''application/json'')],
     req_body = JsonBody [(''message'', JStr message), (''document_id'', JNum documentId)]\<rparr>"

definition connection_error :: string where
  "connection_error = ''Error de conexi'' @ [CHR 0xF3] @ ''n''"

text \<open>
  The part of \<^verbatim>\<open>sendMessage\<close> that follows \<^verbatim>\<open>await fetch(...)\<close>, inside the \<^verbatim>\<open>try\<close>: the
  \<^verbatim>\<open>catch\<close> block takes a rejected fetch, a body that is not JSON and the TypeError of
  reading a property of \<^verbatim>\<open>null\<close>.
\<close>

definition receive_reply :: "jsval fetch_result \<Rightarrow> page \<Rightarrow> page" where
  "receive_reply reply p =
    (case reply of
       NetworkError \<Rightarrow> addMessage connection_error ''assistant'' p
     | HttpResponse ok st None \<Rightarrow> addMessage connection_error ''assistant'' p
     | HttpResponse ok st (Some data) \<Rightarrow>
         (case js_get data ''response'' of
            Inl e \<Rightarrow> addMessage connection_error ''assistant'' p
          | Inr r \<Rightarrow>
              if ok \<and> truthy r
              then addMessage (toStr r) ''assistant'' p
              else (case js_get data ''error'' of
                      Inl e \<Rightarrow> addMessage connection_error ''assistant'' p
                    | Inr err \<Rightarrow>
                        addMessage
                          (''Error: '' @ toStr (js_or err
                             (JStr ''No se pudo procesar la pregunta'')))
                          ''assistant'' p)))"

text \<open>
  \<^verbatim>\<open>sendMessage\<close>, with the answer of its \<^verbatim>\<open>fetch\<close> as argument. The \<^verbatim>\<open>finally\<close> block
  runs on every path that reached the \<^verbatim>\<open>try\<close>.
\<close>

definition sendMessage :: "jsval fetch_result \<Rightarrow> page \<Rightarrow> page" where
  "sendMessage reply p =
    (case chatInput p of
       None \<Rightarrow> throw TypeError p
     | Some inp \<Rightarrow>
         let message = trim (el_value inp)
         in if message = [] then alert ''Escribe una pregunta'' p
            else if \<not> id_set (currentDocumentId p)
            then alert ''Selecciona un documento primero'' p
            else
              let p1 = addMessage message ''user'' p;
                  p2 = p1\<lparr>chatInput := Some (inp\<lparr>el_value := []\<rparr>)\<rparr>;
                  p3 = setLoading True p2;
                  p4 = fetch (chat_request message (the (currentDocumentId p))) p3;
                  p5 = receive_reply reply p4
              in setLoading False p5)"

section \<open>PdfHandler\<close>

text \<open>\<^verbatim>\<open>PdfHandler.showMessage\<close>: \<^verbatim>\<open>container.appendChild\<close> throws when the container is missing.\<close>

definition showMessage :: "string \<Rightarrow> js_error option \<Rightarrow> string \<Rightarrow> page \<Rightarrow> page" where
  "showMessage message err type' p =
    (case messageContainer p of
       None \<Rightarrow> throw TypeError p
     | Some ts \<Rightarrow>
         p\<lparr>messageContainer :=
              Some (ts @ [\<lparr>toast_text = message, toast_error = err, toast_type = type'\<rparr>])\<rparr>)"

text \<open>\<^verbatim>\<open>PdfHandler.renderTable(searchQuery = '')\<close>\<close>

definition PdfHandler_renderTable :: "string \<Rightarrow> page \<Rightarrow> page" where
  "PdfHandler_renderTable searchQuery p =
    (if tableRenderer p then renderTable (documents p) (currentFilter p) searchQuery p else p)"

definition filterDocuments :: "string \<Rightarrow> page \<Rightarrow> page" where
  "filterDocuments selected p = PdfHandler_renderTable [] (p\<lparr>currentFilter := selected\<rparr>)"

definition searchDocuments :: "string \<Rightarrow> page \<Rightarrow> page" where
  "searchDocuments query p = PdfHandler_renderTable query p"

definition documents_request :: request where
  "documents_request =
    \<lparr>req_method = ''GET'', req_url = ''/api/documents'', req_headers = [], req_body = NoBody\<rparr>"

text \<open>The \<^verbatim>\<open>catch\<close> block of \<^verbatim>\<open>loadDocuments\<close>.\<close>

definition load_failed :: "js_error \<Rightarrow> page \<Rightarrow> page" where
  "load_failed e p =
    showMessage ''Error al cargar documentos: '' (Some e) ''error'' (p\<lparr>console := console p @ [e]\<rparr>)"

text \<open>\<^verbatim>\<open>data.data?.documentos || []\<close> for a body that is not \<^verbatim>\<open>null\<close>.\<close>

definition documentos_or_empty :: "docs_data option \<Rightarrow> doc list" where
  "documentos_or_empty d =
    (case d of
       None \<Rightarrow> []
     | Some dd \<Rightarrow> (case documentos dd of None \<Rightarrow> [] | Some ds \<Rightarrow> ds))"

definition loadDocuments :: "docs_body fetch_result \<Rightarrow> page \<Rightarrow> page" where
  "loadDocuments reply p0 =
    (let p = fetch documents_request p0
     in case reply of
          NetworkError \<Rightarrow> load_failed FetchFailed p
        | HttpResponse ok st body \<Rightarrow>
            if \<not> ok then load_failed (HttpError st) p
            else (case body of
                    None \<Rightarrow> load_failed BadJson p
                  | Some BodyNull \<Rightarrow> load_failed TypeError p
                  | Some (BodyObj d) \<Rightarrow>
                      let p1 = p\<lparr>documents := documentos_or_empty d\<rparr>;
                          p2 = PdfHandler_renderTable [] p1
                      in if selectedDocument p2 = None \<and> chatHandler p2
                         then disableChat p2 else p2))"

definition docName2 :: "doc \<Rightarrow> string" where
  "docName2 d = toStr (js_or (str_val (nombre_pdf d)) (str_val (filename d)))"

definition selectDocument :: "int \<Rightarrow> page \<Rightarrow> page" where
  "selectDocument docId p =
    (case find (\<lambda>d. doc_id d = docId) (documents p) of
       None \<Rightarrow> alert ''Documento no encontrado'' p
     | Some d \<Rightarrow>
         let p1 = p\<lparr>selectedDocument := Some d\<rparr>;
             p2 = p1\<lparr>chatTitle :=
                    map_option (\<lambda>old. ''Chat con Documento: '' @ docName d) (chatTitle p1)\<rparr>;
             p3 = p2\<lparr>chatMessages :=
                    map_option (\<lambda>old. [SystemMessage (docName2 d)]) (chatMessages p2)\<rparr>;
             p4 = (if chatHandler p3 then enableChat docId p3 else p3)
         in showMessage
              (''Documento '' @ [CHR 0x22] @ docName2 d @ [CHR 0x22] @ '' seleccionado para chat'')
              None ''success'' p4)"

section \<open>FileHandler\<close>

text \<open>\<^verbatim>\<open>FileHandler.showMessage\<close> creates its element when it is missing.\<close>

definition FileHandler_showMessage :: "string \<Rightarrow> string \<Rightarrow> page \<Rightarrow> page" where
  "FileHandler_showMessage txt type' p =
    p\<lparr>uploadMessage := Some \<lparr>um_text = txt, um_type = type', um_show = True\<rparr>\<rparr>"

definition upload_request :: "js_file \<Rightarrow> request" where
  "upload_request f =
    \<lparr>req_method = ''POST'', req_url = ''/api/upload-pdf'', req_headers = [],
     req_body = FormData [(''pdf_file'', f)]\<rparr>"

definition upload_failed :: "js_error \<Rightarrow> page \<Rightarrow> page" where
  "upload_failed e p =
    FileHandler_showMessage connection_error ''error'' (p\<lparr>console := console p @ [e]\<rparr>)"

text \<open>
  \<^verbatim>\<open>uploadFile\<close>, with the answers of its own \<^verbatim>\<open>fetch\<close> and of the \<^verbatim>\<open>loadDocuments\<close> it
  starts after a successful upload.
\<close>

definition uploadFile ::
  "jsval fetch_result \<Rightarrow> docs_body fetch_result \<Rightarrow> js_file \<Rightarrow> page \<Rightarrow> page" where
  "uploadFile reply docsReply f p =
    (if isUploading p then p
     else
       let p1 = p\<lparr>isUploading := True\<rparr>;
           p2 = FileHandler_showMessage ''Subiendo archivo...'' ''info'' p1;
           p3 = fetch (upload_request f) p2;
           p4 =
             (case reply of
                NetworkError \<Rightarrow> upload_failed FetchFailed p3
              | HttpResponse ok st None \<Rightarrow> upload_failed BadJson p3
              | HttpResponse ok st (Some result) \<Rightarrow>
                  if ok then
                    let q1 = FileHandler_showMessage ''Archivo subido exitosamente'' ''success'' p3;
                        q2 = q1\<lparr>pdfFile := [], selectedFile := None\<rparr>
                    in loadDocuments docsReply q2
                  else (case js_get result ''error'' of
                          Inl e \<Rightarrow> upload_failed e p3
                        | Inr err \<Rightarrow>
                            FileHandler_showMessage
                              (toStr (js_or err (JStr ''Error al subir el archivo''))) ''error'' p3))
       in p4\<lparr>isUploading := False\<rparr>)"

text \<open>\<^verbatim>\<open>handleFileSelect\<close>: \<open>files\<close> is \<^verbatim>\<open>event.target.files\<close>, the target is the file input.\<close>

definition handleFileSelect ::
  "jsval fetch_result \<Rightarrow> docs_body fetch_result \<Rightarrow> js_file list \<Rightarrow> page \<Rightarrow> page" where
  "handleFileSelect reply docsReply files p =
    (case files of
       [] \<Rightarrow> p
     | f # others \<Rightarrow>
         if file_type f \<noteq> ''application/pdf''
         then (FileHandler_showMessage ''Solo se permiten archivos PDF'' ''error'' p)\<lparr>pdfFile := []\<rparr>
         else uploadFile reply docsReply f (p\<lparr>selectedFile := Some f\<rparr>))"

definition removeFile :: "page \<Rightarrow> page" where
  "removeFile p =
    p\<lparr>pdfFile := [],
      fileInfo := map_option (\<lambda>old. []) (fileInfo p),
      progressContainer := map_option (\<lambda>old. False) (progressContainer p),
      uploadMessage := map_option (\<lambda>m. m\<lparr>um_show := False\<rparr>) (uploadMessage p),
      selectedFile := None\<rparr>"

definition showProgress :: "bool \<Rightarrow> page \<Rightarrow> page" where
  "showProgress sh p =
    p\<lparr>progressContainer := map_option (\<lambda>old. sh) (progressContainer p),
      submitContainer := map_option (\<lambda>old. \<not> sh) (submitContainer p)\<rparr>"

text \<open>\<^verbatim>\<open>handleUpload\<close>: the other path to \<^verbatim>\<open>POST /api/upload-pdf\<close>, for the stored file.\<close>

definition handleUpload :: "jsval fetch_result \<Rightarrow> docs_body fetch_result \<Rightarrow> page \<Rightarrow> page" where
  "handleUpload reply docsReply p =
    (if isUploading p then p
     else (case selectedFile p of
             None \<Rightarrow> FileHandler_showMessage ''Selecciona un archivo PDF'' ''error'' p
           | Some f \<Rightarrow>
               let p1 = showProgress True (p\<lparr>isUploading := True\<rparr>);
                   p2 = fetch (upload_request f) p1;
                   p3 =
                     (case reply of
                        NetworkError \<Rightarrow> upload_failed FetchFailed p2
                      | HttpResponse ok st None \<Rightarrow> upload_failed BadJson p2
                      | HttpResponse ok st (Some data) \<Rightarrow>
                          (case js_get data ''success'' of
                             Inl e \<Rightarrow> upload_failed e p2
                           | Inr success \<Rightarrow>
                               if truthy success then
                                 loadDocuments docsReply
                                   (removeFile
                                     (FileHandler_showMessage
                                        ''Documento subido exitosamente'' ''success'' p2))
                               else (case js_get data ''error'' of
                                       Inl e \<Rightarrow> upload_failed e p2
                                     | Inr err \<Rightarrow>
                                         FileHandler_showMessage
                                           (''Error: '' @ toStr (js_or err
                                              (JStr ''No se pudo subir el archivo'')))
                                           ''error'' p2)))
               in showProgress False (p3\<lparr>isUploading := False\<rparr>)))"

section \<open>DocumentDetails\<close>

text \<open>A section of the details modal: a titled grid of label and text, or the JSON box.\<close>

datatype detail_section = DetailGrid string "(string \<times> string) list" | DetailJson string string

definition formatDate_long :: "engine \<Rightarrow> jsval \<Rightarrow> string" where
  "formatDate_long eng dateString =
    (if \<not> truthy dateString then ''N/A'' else dateLong eng dateString)"

definition formatNumber :: "engine \<Rightarrow> int \<Rightarrow> string" where
  "formatNumber eng num =
    (if num = 0 then ''0''
     else if num < 1000 then show_int num
     else if num < 1000000 then fixedText eng 1 (of_int num / 1000) @ ''K''
     else fixedText eng 1 (of_int num / 1000000) @ ''M'')"

text \<open>
  \<^verbatim>\<open>processingInfo.processing_time?.toFixed(2) || 'N/A'\<close>: only a number has \<^verbatim>\<open>toFixed\<close>;
  on any other value that is not \<^verbatim>\<open>null\<close> or \<^verbatim>\<open>undefined\<close> the call throws.
\<close>

definition processing_time_text :: "engine \<Rightarrow> jsval \<Rightarrow> js_error + string" where
  "processing_time_text eng v =
    (case v of
       JUndefined \<Rightarrow> Inr ''N/A''
     | JNull \<Rightarrow> Inr ''N/A''
     | JNum n \<Rightarrow> Inr (let s = fixedText eng 2 (of_int n) in if s = [] then ''N/A'' else s)
     | _ \<Rightarrow> Inl TypeError)"

definition basic_section :: "engine \<Rightarrow> doc \<Rightarrow> detail_section" where
  "basic_section eng d =
    DetailGrid (''Informaci'' @ [CHR 0xF3] @ ''n B'' @ [CHR 0xE1] @ ''sica'')
      [(''Nombre:'', docName d),
       (''Estado:'', toStr (getStatusText (str_val (estado_procesamiento d)))),
       (''Tama'' @ [CHR 0xF1] @ ''o:'', formatFileSize eng (tamano_archivo d)),
       (''Fecha de recepci'' @ [CHR 0xF3] @ ''n:'',
          formatDate_long eng (str_val (fecha_hora_recepcion d))),
       (''Dominio origen:'', toStr (js_or (str_val (dominio_origen d)) (JStr ''N/A'')))]"

definition yes_no :: "bool \<Rightarrow> string" where
  "yes_no b = (if b then ''S'' @ [CHR 0xED] else ''No'')"

definition content_section :: "engine \<Rightarrow> content_info \<Rightarrow> detail_section" where
  "content_section eng ci =
    DetailGrid (''An'' @ [CHR 0xE1] @ ''lisis de Contenido'')
      ([(''Total de p'' @ [CHR 0xE1] @ ''ginas:'', show_int (total_pages ci)),
        (''Caracteres totales:'', formatNumber eng (total_chars ci)),
        (''Contiene im'' @ [CHR 0xE1] @ ''genes:'', yes_no (has_images ci))] @
       (if has_images ci
        then [(''Im'' @ [CHR 0xE1] @ ''genes con texto:'', show_int (images_with_text ci))]
        else []) @
       [(''Contiene texto:'', yes_no (has_text ci))])"

definition processing_section ::
  "engine \<Rightarrow> (string \<times> jsval) list \<Rightarrow> js_error + detail_section" where
  "processing_section eng processingInfo =
    (case processing_time_text eng (obj_get processingInfo ''processing_time'') of
       Inl e \<Rightarrow> Inl e
     | Inr t \<Rightarrow>
         Inr (DetailGrid (''Informaci'' @ [CHR 0xF3] @ ''n de Procesamiento'')
           [(''Fecha de procesamiento:'',
               formatDate_long eng (obj_get processingInfo ''processed_at'')),
            (''Tiempo de procesamiento:'', t @ '' segundos''),
            (''Versi'' @ [CHR 0xF3] @ ''n del procesador:'',
               toStr (js_or (obj_get processingInfo ''version'') (JStr ''N/A'')))]))"

definition json_section :: "engine \<Rightarrow> jsval \<Rightarrow> detail_section" where
  "json_section eng cj =
    DetailJson ''Contenido JSON Procesado''
      (if truthy cj then jsonText eng cj
       else ''No hay contenido procesado disponible para este documento.'')"

definition generateDetailContent :: "engine \<Rightarrow> doc \<Rightarrow> js_error + detail_section list" where
  "generateDetailContent eng d =
    (let content = [basic_section eng d];
         content = (case content_info d of
                      None \<Rightarrow> content
                    | Some contentInfo \<Rightarrow> content @ [content_section eng contentInfo])
     in case processing_info d of
          None \<Rightarrow> Inr (content @ [json_section eng (contenido_json d)])
        | Some processingInfo \<Rightarrow>
            (case processing_section eng processingInfo of
               Inl e \<Rightarrow> Inl e
             | Inr sec \<Rightarrow> Inr (content @ [sec] @ [json_section eng (contenido_json d)])))"

section \<open>The backend, as the specification describes it\<close>

text \<open>
  The ingestion pipeline, the document store and the chat query engine run on the server;
  the browser modules only call them. The definitions of this section follow sections 3,
  4.4, 4.6 and 6 of the specification.
\<close>

text \<open>Modelled from the spec: the four values of \<open>status\<close> (section 3).\<close>

datatype status = Pending | Processing | Processed | Error

text \<open>
  Modelled from the spec: \<open>processing_info\<close> and \<open>content_json\<close> of section 3 (raw text per
  page, keywords, OCR excerpts). Both are objects with fixed members, so one that is
  present is not empty. \<open>content_info\<close> has the members the browser reads, and is the
  record above.
\<close>

record processing_record =
  processed_at :: string
  processing_time_seconds :: nat
  pipeline_version :: string

record content_json =
  pages_text :: "string list"
  keyword_list :: "string list"
  ocr_excerpts :: "string list"

text \<open>
  Modelled from the spec: the Document record of section 3 (the server's data model is
  not among the sources). The optional fields are \<open>None\<close> until they are set.
\<close>

record document =
  document_id :: nat
  document_filename :: string
  size_bytes :: nat
  received_at :: string
  origin_domain :: "string option"
  document_status :: status
  document_content_info :: "content_info option"
  document_processing_info :: "processing_record option"
  document_content_json :: "content_json option"
  storage_ref :: "string option"

text \<open>
  Modelled from the spec: the creation of a Document at upload (section 3, Lifecycle):
  status \<open>pending\<close>, no derived content yet.
\<close>

definition upload :: "nat \<Rightarrow> string \<Rightarrow> nat \<Rightarrow> string \<Rightarrow> string option \<Rightarrow> document" where
  "upload i name size' received origin =
    \<lparr>document_id = i, document_filename = name, size_bytes = size', received_at = received,
     origin_domain = origin, document_status = Pending, document_content_info = None,
     document_processing_info = None, document_content_json = None, storage_ref = None\<rparr>"

text \<open>
  Modelled from the spec: the three transitions of section 4.4. A worker claims the document; the run completes
  and writes \<open>content_info\<close>, \<open>content_json\<close> and \<open>processing_info\<close> together; the run
  fails, recording \<open>processing_info\<close> and possibly partial content.
\<close>

datatype event =
    Claim
  | Complete content_info content_json processing_record
  | Fail processing_record "content_json option"

text \<open>
  Modelled from the spec: the Ingestion Coordinator's state machine of section 4.4 (the
  pipeline is not among the sources). A transition that the section does not list is
  refused (\<open>None\<close>): \<open>processed\<close> and \<open>error\<close> are terminal.
\<close>

fun step :: "document \<Rightarrow> event \<Rightarrow> document option" where
  "step d Claim =
    (if document_status d = Pending then Some (d\<lparr>document_status := Processing\<rparr>) else None)"
| "step d (Complete ci cj pr) =
    (if document_status d = Processing
     then Some (d\<lparr>document_status := Processed, document_content_info := Some ci,
                  document_content_json := Some cj, document_processing_info := Some pr\<rparr>)
     else None)"
| "step d (Fail pr partial) =
    (if document_status d = Processing
     then Some (d\<lparr>document_status := Error, document_processing_info := Some pr,
                  document_content_json := partial\<rparr>)
     else None)"

text \<open>Modelled from the spec: a pipeline run, event by event (section 4.4).\<close>

fun run :: "document \<Rightarrow> event list \<Rightarrow> document option" where
  "run d [] = Some d"
| "run d (e # es) = (case step d e of None \<Rightarrow> None | Some d' \<Rightarrow> run d' es)"

text \<open>Modelled from the spec: the two chat errors of section 7.\<close>

datatype chat_error = DocumentNotReady | GenerationUnavailable

text \<open>
  Modelled from the spec: the Chat Query Engine's \<open>answer(document_id, question)\<close> of
  section 4.6 (the engine is not among the sources). \<open>store\<close> is the Document Store's
  \<open>get\<close>, \<open>generate\<close> the generation backend on the document's \<open>content_json\<close> (\<open>None\<close> when
  it cannot be reached). A document that the store does not hold has no status
  \<open>processed\<close> either.
\<close>

definition answer ::
  "(nat \<Rightarrow> document option) \<Rightarrow> (content_json \<Rightarrow> string \<Rightarrow> string option) \<Rightarrow> nat \<Rightarrow> string
    \<Rightarrow> chat_error + string" where
  "answer store generate did question =
    (case store did of
       None \<Rightarrow> Inl DocumentNotReady
     | Some d \<Rightarrow>
         if document_status d \<noteq> Processed then Inl DocumentNotReady
         else (case document_content_json d of
                 None \<Rightarrow> Inl DocumentNotReady
               | Some cj \<Rightarrow>
                   (case generate cj question of
                      None \<Rightarrow> Inl GenerationUnavailable
                    | Some txt \<Rightarrow> Inr txt)))"

text \<open>
  Modelled from the spec: the reply of \<^verbatim>\<open>POST /chat/message\<close> of section 6, \<^verbatim>\<open>{response}\<close>
  or \<^verbatim>\<open>{error}\<close> (the route is not among the sources). The section fixes neither the HTTP
  status nor the text of the error, so both are arguments.
\<close>

definition chat_reply ::
  "(chat_error \<Rightarrow> jsval) \<Rightarrow> bool \<Rightarrow> nat \<Rightarrow> chat_error + string \<Rightarrow> jsval fetch_result" where
  "chat_reply describe ok st r =
    (case r of
       Inl e \<Rightarrow> HttpResponse ok st (Some (JObj [(''error'', describe e)]))
     | Inr txt \<Rightarrow> HttpResponse ok st (Some (JObj [(''response'', JStr txt)])))"

section \<open>Vocabulary of the properties\<close>

text \<open>\<open>q\<close> occurs in \<open>s\<close> as a substring.\<close>

definition substring :: "string \<Rightarrow> string \<Rightarrow> bool" where
  "substring q s = (\<exists>pre suf. s = pre @ q @ suf)"

text \<open>
  When a document gets a row, in the words of the table's description: the filter is
  \<^verbatim>\<open>todos\<close> or equals the document's status, and the trimmed query is empty or the
  lowercased query occurs in the lowercased name, file name or origin domain, a missing
  field counting as the empty string.
\<close>

definition row_expected :: "string \<Rightarrow> string \<Rightarrow> doc \<Rightarrow> bool" where
  "row_expected flt query d =
    ((flt = ''todos'' \<or> estado_procesamiento d = Some flt) \<and>
     (trim query = [] \<or>
      substring (toLowerCase query) (toLowerCase (or_empty (nombre_pdf d))) \<or>
      substring (toLowerCase query) (toLowerCase (or_empty (filename d))) \<or>
      substring (toLowerCase query) (toLowerCase (or_empty (dominio_origen d)))))"

definition spanish_status :: "string set" where
  "spanish_status = {''pendiente'', ''procesando'', ''procesado'', ''error''}"

definition legacy_status :: "string set" where
  "legacy_status = {''pending'', ''processing'', ''completed''}"

text \<open>
  A chat exchange that ends in an error: the backend is unreachable, the response is not
  JSON or not ok, or it has no (truthy) \<^verbatim>\<open>response\<close> member.
\<close>

definition chat_failed :: "jsval fetch_result \<Rightarrow> bool" where
  "chat_failed reply =
    (case reply of
       NetworkError \<Rightarrow> True
     | HttpResponse ok st None \<Rightarrow> True
     | HttpResponse ok st (Some data) \<Rightarrow>
         \<not> ok \<or> (case js_get data ''response'' of Inl e \<Rightarrow> True | Inr r \<Rightarrow> \<not> truthy r))"

text \<open>The text the chat panel shows for a failed exchange.\<close>

definition chat_error_text :: "jsval fetch_result \<Rightarrow> string" where
  "chat_error_text reply =
    (case reply of
       NetworkError \<Rightarrow> connection_error
     | HttpResponse ok st None \<Rightarrow> connection_error
     | HttpResponse ok st (Some data) \<Rightarrow>
         (case js_get data ''error'' of
            Inl e \<Rightarrow> connection_error
          | Inr err \<Rightarrow>
              ''Error: '' @ toStr (js_or err (JStr ''No se pudo procesar la pregunta''))))"

text \<open>The toast of a failed \<^verbatim>\<open>loadDocuments\<close>.\<close>

definition load_error_toast :: "js_error \<Rightarrow> toast" where
  "load_error_toast e =
    \<lparr>toast_text = ''Error al cargar documentos: '', toast_error = Some e, toast_type = ''error''\<rparr>"

text \<open>The upload requests among \<open>rs\<close> all carry a PDF in the multipart field \<^verbatim>\<open>pdf_file\<close>.\<close>

definition uploads_pdf_only :: "request list \<Rightarrow> bool" where
  "uploads_pdf_only rs =
    list_all (\<lambda>r. req_url r = ''/api/upload-pdf'' \<longrightarrow>
      (case req_body r of
         FormData [(field, f)] \<Rightarrow> field = ''pdf_file'' \<and> file_type f = ''application/pdf''
       | _ \<Rightarrow> False)) rs"

section \<open>Concrete inputs\<close>

definition engine0 :: engine where
  "engine0 =
    \<lparr>fixedText = (\<lambda>d x. ''12.00''), logIndex = (\<lambda>n. 1), shortText = (\<lambda>n i. ''2''),
     dateShort = (\<lambda>v. ''1/5/2024''),
     dateLong = (\<lambda>v. ''1 de mayo de 2024, 10:00''), jsonText = (\<lambda>v. ''{}'')\<rparr>"

definition doc1 :: doc where
  "doc1 =
    \<lparr>doc_id = 1, nombre_pdf = Some ''Informe.pdf'', filename = None,
     estado_procesamiento = Some ''procesado'', tamano_archivo = SizeNum 2048,
     fecha_hora_recepcion = Some ''2024-05-01T10:00:00'', dominio_origen = Some ''unal.edu.co'',
     url_google_drive = None,
     content_info = Some \<lparr>total_pages = 3, total_chars = 9, has_images = True,
                           images_with_text = 1, has_text = True\<rparr>,
     processing_info = Some [(''processed_at'', JStr ''2024-05-01T10:00:12''),
                             (''processing_time'', JNum 12), (''version'', JStr ''1.0'')],
     contenido_json = JObj [(''pages'', JNum 3)]\<rparr>"

text \<open>A record whose \<open>processing_info\<close> has the member names of the specification.\<close>

definition doc2 :: doc where
  "doc2 =
    \<lparr>doc_id = 2, nombre_pdf = None, filename = Some ''acta.pdf'',
     estado_procesamiento = Some ''pending'', tamano_archivo = SizeNull,
     fecha_hora_recepcion = None, dominio_origen = None, url_google_drive = None,
     content_info = None,
     processing_info = Some [(''processed_at'', JStr ''2024-05-01T10:00:12''),
                             (''processing_time_seconds'', JNum 12),
                             (''pipeline_version'', JStr ''1.0'')],
     contenido_json = JNull\<rparr>"

definition page0 :: page where
  "page0 =
    \<lparr>documents = [doc1, doc2], selectedDocument = None, currentFilter = ''todos'',
     tableRenderer = True, selectedFile = None, isUploading = False, chatHandler = True,
     currentDocumentId = None,
     chatInput = Some \<lparr>el_value = '' hola '', el_disabled = True, el_placeholder = []\<rparr>,
     sendChatBtn = Some \<lparr>btn_disabled = True, btn_text = ''Enviar''\<rparr>,
     chatStatus = Some [], chatTitle = Some [], chatMessages = Some [], tbody = Some [],
     messageContainer = Some [], uploadMessage = None, fileInfo = None,
     progressContainer = None, submitContainer = None, pdfFile = ''notas.txt'',
     alerts = [], console = [], requests = [], uncaught = []\<rparr>"

definition pdf0 :: js_file where
  "pdf0 = \<lparr>file_name = ''informe.pdf'', file_type = ''application/pdf'', file_size = 2048\<rparr>"

definition txt0 :: js_file where
  "txt0 = \<lparr>file_name = ''notas.txt'', file_type = ''text/plain'', file_size = 10\<rparr>"

chapter \<open>Properties\<close>

section \<open>File sizes\<close>

text \<open>
  What \<^verbatim>\<open>formatFileSize\<close> returns, given the unit index that the engine computes: \<^verbatim>\<open>0 B\<close>
  for a falsy size; for a positive size the printed number, a space, and the unit at
  that index, or \<^verbatim>\<open>undefined\<close> when the index is outside the four units.
\<close>

lemma formatFileSize_falsy: "size_falsy bytes \<Longrightarrow> formatFileSize eng bytes = ''0 B''"
  by (cases bytes) (simp_all add: size_falsy_def formatFileSize_def)

lemma formatFileSize_in_units:
  assumes "0 < n" and "0 \<le> logIndex eng n" and "logIndex eng n < 4"
  shows "formatFileSize eng (SizeNum n) =
    shortText eng n (logIndex eng n) @ '' '' @ sizes ! nat (logIndex eng n)"
  using assms by (simp add: formatFileSize_def sizes_at_def sizes_def Let_def)

lemma formatFileSize_past_units:
  assumes "0 < n" and "logIndex eng n < 0 \<or> 4 \<le> logIndex eng n"
  shows "formatFileSize eng (SizeNum n) = shortText eng n (logIndex eng n) @ '' undefined''"
  using assms by (auto simp add: formatFileSize_def sizes_at_def sizes_def Let_def)

section \<open>Status labels\<close>

lemma getStatusText_mapped:
  "getStatusText (JStr ''pendiente'') = JStr ''Pendiente'' \<and>
   getStatusText (JStr ''procesando'') = JStr ''Procesando'' \<and>
   getStatusText (JStr ''procesado'') = JStr ''Procesado'' \<and>
   getStatusText (JStr ''error'') = JStr ''Error'' \<and>
   getStatusText (JStr ''pending'') = JStr ''Pendiente'' \<and>
   getStatusText (JStr ''processing'') = JStr ''Procesando'' \<and>
   getStatusText (JStr ''completed'') = JStr ''Completado''"
  by (simp add: getStatusText_def js_or_def obj_get_def statusMap_def)

text \<open>
  A string that is neither a key of \<open>statusMap\<close> nor the name of a property inherited
  from \<^verbatim>\<open>Object.prototype\<close> comes back unchanged.
\<close>

lemma getStatusText_other:
  assumes "s \<notin> fst ` set statusMap" and "s \<notin> fst ` set Object_prototype"
  shows "getStatusText (JStr s) = JStr s"
proof -
  from assms have "map_of statusMap s = None" "map_of Object_prototype s = None"
    by (simp_all add: map_of_eq_None_iff)
  then show ?thesis by (simp add: getStatusText_def js_or_def obj_get_def)
qed

text \<open>
  C3. The seven listed values map to their labels (\<open>getStatusText_mapped\<close>), but not every
  other string comes back unchanged: \<^verbatim>\<open>statusMap[status]\<close> also finds the properties that
  the object literal inherits. For the status \<^verbatim>\<open>constructor\<close> the lookup yields the built-in
  function \<^verbatim>\<open>Object\<close>, which is truthy, so \<^verbatim>\<open>getStatusText\<close> returns that function and the
  table shows its source text.
\<close>

theorem getStatusText_constructor:
  "getStatusText (JStr ''constructor'') = JFun ''Object'' \<and>
   toStr (getStatusText (JStr ''constructor'')) = ''function Object() { [native code] }''"
  by (simp add: getStatusText_def js_or_def obj_get_def statusMap_def Object_prototype_def)

section \<open>The chat panel\<close>

lemma trim_hola: "trim '' hola '' = ''hola''"
  by (simp add: trim_def isWhiteSpace_def)

lemma receive_reply_chatMessages_only:
  "receive_reply reply p = p\<lparr>chatMessages := chatMessages (receive_reply reply p)\<rparr>"
  by (simp add: receive_reply_def addMessage_def
      split: fetch_result.splits option.splits sum.splits)

lemma sendMessage_requests:
  "requests (sendMessage reply p) =
    (case chatInput p of
       None \<Rightarrow> requests p
     | Some inp \<Rightarrow>
         if trim (el_value inp) \<noteq> [] \<and> id_set (currentDocumentId p)
         then requests p @ [chat_request (trim (el_value inp)) (the (currentDocumentId p))]
         else requests p)"
proof -
  have "\<And>q. requests (receive_reply reply q) = requests q"
    by (subst receive_reply_chatMessages_only) simp
  then show ?thesis
    by (simp add: sendMessage_def throw_def alert_def fetch_def addMessage_def setLoading_def
      Let_def split: option.splits)
qed

lemma sendMessage_currentDocumentId:
  "currentDocumentId (sendMessage reply p) = currentDocumentId p"
proof -
  have "\<And>q. currentDocumentId (receive_reply reply q) = currentDocumentId q"
    by (subst receive_reply_chatMessages_only) simp
  then show ?thesis
    by (simp add: sendMessage_def throw_def alert_def fetch_def addMessage_def setLoading_def
      Let_def split: option.splits)
qed

lemma enableChat_fields:
  "currentDocumentId (enableChat i p) = Some i"
  "requests (enableChat i p) = requests p"
  "chatInput (enableChat i p) =
     map_option (\<lambda>inp. inp\<lparr>el_disabled := False,
        el_placeholder := ''Escribe tu pregunta sobre el documento...''\<rparr>) (chatInput p)"
  by (simp_all add: enableChat_def clearMessages_def Let_def)

text \<open>
  C6. Every chat request carries the document id explicitly. \<^verbatim>\<open>enableChat(id)\<close> stores the
  id, \<^verbatim>\<open>sendMessage\<close> keeps it, and a \<^verbatim>\<open>sendMessage\<close> that follows sends exactly one
  \<^verbatim>\<open>POST /chat/message\<close> whose body is \<^verbatim>\<open>{message, document_id}\<close> with the trimmed input and
  that id; it sends nothing when the trimmed message is empty or no document id is set
  (\<^verbatim>\<open>!this.currentDocumentId\<close>, which holds for \<^verbatim>\<open>null\<close> and for the number 0). The last
  conjunct gives the requests of \<^verbatim>\<open>sendMessage\<close> in any state of the page.
\<close>

theorem sendMessage_carries_document_id:
  assumes "chatInput p = Some inp"
  shows
   "currentDocumentId (enableChat documentId p) = Some documentId \<and>
    currentDocumentId (sendMessage reply (enableChat documentId p)) = Some documentId \<and>
    requests (sendMessage reply (enableChat documentId p)) =
      (if trim (el_value inp) \<noteq> [] \<and> id_set (Some documentId)
       then requests p @
         [\<lparr>req_method = ''POST'', req_url = ''/chat/message'',
           req_headers = [(''Content-Type'', ''application/json'')],
           req_body = JsonBody [(''message'', JStr (trim (el_value inp))),
                                (''document_id'', JNum documentId)]\<rparr>]
       else requests p) \<and>
    (\<forall>q. requests (sendMessage reply q) =
       (case chatInput q of
          None \<Rightarrow> requests q
        | Some i \<Rightarrow>
            if trim (el_value i) \<noteq> [] \<and> id_set (currentDocumentId q)
            then requests q @ [chat_request (trim (el_value i)) (the (currentDocumentId q))]
            else requests q))"
  using assms
  by (simp add: sendMessage_requests sendMessage_currentDocumentId enableChat_fields
      chat_request_def)

theorem sendMessage_carries_document_id_witness:
  "currentDocumentId (enableChat 7 page0) = Some 7 \<and>
   requests (sendMessage NetworkError (enableChat 7 page0)) =
     [\<lparr>req_method = ''POST'', req_url = ''/chat/message'',
       req_headers = [(''Content-Type'', ''application/json'')],
       req_body = JsonBody [(''message'', JStr ''hola''), (''document_id'', JNum 7)]\<rparr>] \<and>
   requests (sendMessage NetworkError page0) = []"
proof -
  have inp: "chatInput page0 = Some \<lparr>el_value = '' hola '', el_disabled = True, el_placeholder = []\<rparr>"
    by (simp add: page0_def)
  have rq: "requests page0 = []" and cur: "currentDocumentId page0 = None"
    by (simp_all add: page0_def)
  from sendMessage_carries_document_id [OF inp, of 7 NetworkError]
  show ?thesis
    by (simp add: trim_hola id_set_def rq cur inp enableChat_fields chat_request_def)
qed

lemma receive_reply_failed:
  assumes "chat_failed reply"
  shows "receive_reply reply p = addMessage (chat_error_text reply) ''assistant'' p"
proof (cases reply)
  case NetworkError
  then show ?thesis by (simp add: receive_reply_def chat_error_text_def)
next
  case (HttpResponse ok st body)
  show ?thesis
  proof (cases body)
    case None
    with HttpResponse show ?thesis by (simp add: receive_reply_def chat_error_text_def)
  next
    case (Some data)
    with HttpResponse assms show ?thesis
      by (cases data) (auto simp add: receive_reply_def chat_error_text_def chat_failed_def)
  qed
qed

lemma chat_error_text_shape:
  "chat_error_text reply = connection_error \<or>
     (\<exists>detail. chat_error_text reply = ''Error: '' @ detail)"
  by (simp add: chat_error_text_def split: fetch_result.splits option.splits sum.splits)

lemma sendMessage_failed:
  assumes "chatInput p = Some inp" and "trim (el_value inp) \<noteq> []"
    and "id_set (currentDocumentId p)" and "chat_failed reply"
  shows "sendMessage reply p =
      p\<lparr>chatMessages := map_option
           (\<lambda>ms. ms @ [ChatMessage ''user'' (trim (el_value inp)),
                        ChatMessage ''assistant'' (chat_error_text reply)]) (chatMessages p),
        chatInput := Some (inp\<lparr>el_value := [], el_disabled := False\<rparr>),
        sendChatBtn := map_option
           (\<lambda>b. b\<lparr>btn_disabled := False, btn_text := ''Enviar''\<rparr>) (sendChatBtn p),
        requests := requests p @
           [chat_request (trim (el_value inp)) (the (currentDocumentId p))]\<rparr>"
  using assms
  by (cases "chatMessages p"; cases "sendChatBtn p")
     (simp_all add: sendMessage_def receive_reply_failed fetch_def addMessage_def
        setLoading_def Let_def)

text \<open>
  C7. A failed chat request never changes document state. When the exchange ends in an
  error (the backend is unreachable, the response is not ok, or it has no \<^verbatim>\<open>response\<close>
  member), \<^verbatim>\<open>sendMessage\<close> changes four things only: the chat log gets the question and
  one error message for it, the input is emptied and enabled again, the send button is
  enabled again, and the request is logged. The document list, the selected document and
  the current document id are as before.
\<close>

theorem failed_chat_leaves_documents:
  assumes "chatInput p = Some inp" and "trim (el_value inp) \<noteq> []"
    and "id_set (currentDocumentId p)" and "chat_failed reply"
  shows
   "sendMessage reply p =
      p\<lparr>chatMessages := map_option
           (\<lambda>ms. ms @ [ChatMessage ''user'' (trim (el_value inp)),
                        ChatMessage ''assistant'' (chat_error_text reply)]) (chatMessages p),
        chatInput := Some (inp\<lparr>el_value := [], el_disabled := False\<rparr>),
        sendChatBtn := map_option
           (\<lambda>b. b\<lparr>btn_disabled := False, btn_text := ''Enviar''\<rparr>) (sendChatBtn p),
        requests := requests p @
           [chat_request (trim (el_value inp)) (the (currentDocumentId p))]\<rparr> \<and>
    documents (sendMessage reply p) = documents p \<and>
    selectedDocument (sendMessage reply p) = selectedDocument p \<and>
    currentDocumentId (sendMessage reply p) = currentDocumentId p \<and>
    (chat_error_text reply = connection_error \<or>
     (\<exists>detail. chat_error_text reply = ''Error: '' @ detail))"
proof -
  from assms have eq: "sendMessage reply p =
      p\<lparr>chatMessages := map_option
           (\<lambda>ms. ms @ [ChatMessage ''user'' (trim (el_value inp)),
                        ChatMessage ''assistant'' (chat_error_text reply)]) (chatMessages p),
        chatInput := Some (inp\<lparr>el_value := [], el_disabled := False\<rparr>),
        sendChatBtn := map_option
           (\<lambda>b. b\<lparr>btn_disabled := False, btn_text := ''Enviar''\<rparr>) (sendChatBtn p),
        requests := requests p @
           [chat_request (trim (el_value inp)) (the (currentDocumentId p))]\<rparr>"
    by (rule sendMessage_failed)
  have frame: "documents (sendMessage reply p) = documents p \<and>
    selectedDocument (sendMessage reply p) = selectedDocument p \<and>
    currentDocumentId (sendMessage reply p) = currentDocumentId p"
    by (simp add: eq)
  from eq frame chat_error_text_shape [of reply] show ?thesis by blast
qed

theorem failed_chat_leaves_documents_witness:
  "documents (sendMessage (HttpResponse False 500 (Some (JObj [(''error'', JStr ''sin modelo'')])))
      (enableChat 7 page0)) = [doc1, doc2] \<and>
   currentDocumentId (sendMessage (HttpResponse False 500 (Some (JObj [(''error'', JStr ''sin modelo'')])))
      (enableChat 7 page0)) = Some 7 \<and>
   chatMessages (sendMessage (HttpResponse False 500 (Some (JObj [(''error'', JStr ''sin modelo'')])))
      (enableChat 7 page0)) =
     Some [ChatMessage ''user'' ''hola'', ChatMessage ''assistant'' ''Error: sin modelo''] \<and>
   chatInput (sendMessage (HttpResponse False 500 (Some (JObj [(''error'', JStr ''sin modelo'')])))
      (enableChat 7 page0)) =
     Some \<lparr>el_value = [], el_disabled = False,
           el_placeholder = ''Escribe tu pregunta sobre el documento...''\<rparr>"
proof -
  let ?reply = "HttpResponse False 500 (Some (JObj [(''error'', JStr ''sin modelo'')]))"
  let ?inp = "\<lparr>el_value = '' hola '', el_disabled = False,
           el_placeholder = ''Escribe tu pregunta sobre el documento...''\<rparr>"
  have inp: "chatInput (enableChat 7 page0) = Some ?inp"
    by (simp add: enableChat_fields page0_def)
  have msg: "trim (el_value ?inp) \<noteq> []" by (simp add: trim_hola)
  have cur: "id_set (currentDocumentId (enableChat 7 page0))"
    by (simp add: enableChat_fields id_set_def)
  have failed: "chat_failed ?reply" by (simp add: chat_failed_def)
  have shown: "chat_error_text ?reply = ''Error: sin modelo''"
    by (simp add: chat_error_text_def obj_get_def js_or_def)
  have docs: "documents (enableChat 7 page0) = [doc1, doc2]"
    and msgs: "chatMessages (enableChat 7 page0) = Some []"
    by (simp_all add: enableChat_def clearMessages_def Let_def page0_def)
  from failed_chat_leaves_documents [OF inp msg cur failed]
  have "sendMessage ?reply (enableChat 7 page0) =
      (enableChat 7 page0)\<lparr>chatMessages := map_option
           (\<lambda>ms. ms @ [ChatMessage ''user'' (trim (el_value ?inp)),
                        ChatMessage ''assistant'' (chat_error_text ?reply)])
           (chatMessages (enableChat 7 page0)),
        chatInput := Some (?inp\<lparr>el_value := [], el_disabled := False\<rparr>),
        sendChatBtn := map_option
           (\<lambda>b. b\<lparr>btn_disabled := False, btn_text := ''Enviar''\<rparr>)
           (sendChatBtn (enableChat 7 page0)),
        requests := requests (enableChat 7 page0) @
           [chat_request (trim (el_value ?inp)) (the (currentDocumentId (enableChat 7 page0)))]\<rparr>"
    by (rule conjunct1)
  then show ?thesis
    by (simp add: docs msgs shown trim_hola enableChat_fields)
qed

section \<open>Loading the document list\<close>

lemma renderTable_frame:
  "documents (renderTable ds flt q p) = documents p"
  "console (renderTable ds flt q p) = console p"
  "messageContainer (renderTable ds flt q p) = messageContainer p"
  by (simp_all add: renderTable_def Let_def split: option.splits)

lemma PdfHandler_renderTable_frame:
  "documents (PdfHandler_renderTable q p) = documents p"
  "console (PdfHandler_renderTable q p) = console p"
  "messageContainer (PdfHandler_renderTable q p) = messageContainer p"
  by (simp_all add: PdfHandler_renderTable_def renderTable_frame)

lemma disableChat_frame:
  "documents (disableChat p) = documents p"
  "console (disableChat p) = console p"
  "messageContainer (disableChat p) = messageContainer p"
  by (simp_all add: disableChat_def clearMessages_def Let_def)

lemma load_failed_effect:
  "documents (load_failed e p) = documents p"
  "console (load_failed e p) = console p @ [e]"
  "messageContainer (load_failed e p) =
     map_option (\<lambda>ts. ts @ [load_error_toast e]) (messageContainer p)"
  by (simp_all add: load_failed_def showMessage_def throw_def load_error_toast_def
      split: option.splits)

lemma fetch_frame:
  "documents (fetch r p) = documents p"
  "console (fetch r p) = console p"
  "messageContainer (fetch r p) = messageContainer p"
  by (simp_all add: fetch_def)

lemma loadDocuments_ok:
  "documents (loadDocuments (HttpResponse True st (Some (BodyObj d))) p) = documentos_or_empty d"
  by (simp add: loadDocuments_def Let_def disableChat_frame PdfHandler_renderTable_frame)

lemma loadDocuments_not_ok:
  "documents (loadDocuments (HttpResponse False st body) p) = documents p \<and>
   console (loadDocuments (HttpResponse False st body) p) = console p @ [HttpError st] \<and>
   messageContainer (loadDocuments (HttpResponse False st body) p) =
     map_option (\<lambda>ts. ts @ [load_error_toast (HttpError st)]) (messageContainer p)"
  by (simp add: loadDocuments_def Let_def load_failed_effect fetch_frame)

lemma loadDocuments_null:
  "documents (loadDocuments (HttpResponse True st (Some BodyNull)) p) = documents p \<and>
   console (loadDocuments (HttpResponse True st (Some BodyNull)) p) = console p @ [TypeError] \<and>
   messageContainer (loadDocuments (HttpResponse True st (Some BodyNull)) p) =
     map_option (\<lambda>ts. ts @ [load_error_toast TypeError]) (messageContainer p)"
  by (simp add: loadDocuments_def Let_def load_failed_effect fetch_frame)

text \<open>
  C8, as the code has it. For an ok response whose JSON body is not \<^verbatim>\<open>null\<close>, the document
  list becomes \<^verbatim>\<open>data.data.documentos\<close> when that member is there, and the empty list when
  \<^verbatim>\<open>data.data\<close> or \<^verbatim>\<open>documentos\<close> is missing. For a response that is not ok the error is
  logged, a toast reports it when the message container exists, and the list loaded
  before stays. An ok response whose body is JSON \<^verbatim>\<open>null\<close> is handled like that too: reading
  \<^verbatim>\<open>data.data\<close> throws, and the \<^verbatim>\<open>catch\<close> block reports it.
\<close>

theorem loadDocuments_sets_documents:
  "documents (loadDocuments (HttpResponse True st (Some (BodyObj None))) p) = [] \<and>
   documents (loadDocuments
      (HttpResponse True st (Some (BodyObj (Some \<lparr>documentos = None\<rparr>)))) p) = [] \<and>
   documents (loadDocuments
      (HttpResponse True st (Some (BodyObj (Some \<lparr>documentos = Some ds\<rparr>)))) p) = ds \<and>
   documents (loadDocuments (HttpResponse False st body) p) = documents p \<and>
   console (loadDocuments (HttpResponse False st body) p) = console p @ [HttpError st] \<and>
   messageContainer (loadDocuments (HttpResponse False st body) p) =
     map_option (\<lambda>ts. ts @ [load_error_toast (HttpError st)]) (messageContainer p) \<and>
   documents (loadDocuments (HttpResponse True st (Some BodyNull)) p) = documents p \<and>
   console (loadDocuments (HttpResponse True st (Some BodyNull)) p) = console p @ [TypeError] \<and>
   messageContainer (loadDocuments (HttpResponse True st (Some BodyNull)) p) =
     map_option (\<lambda>ts. ts @ [load_error_toast TypeError]) (messageContainer p)"
  using loadDocuments_not_ok [of st body p] loadDocuments_null [of st p]
  by (simp add: loadDocuments_ok documentos_or_empty_def)

text \<open>
  C8 as stated fails for the ok response with body \<^verbatim>\<open>null\<close>: it has no \<^verbatim>\<open>documentos\<close>, yet
  the list is not emptied; the two documents loaded before remain and an error is shown.
\<close>

theorem loadDocuments_null_body_keeps_list:
  "documents (loadDocuments (HttpResponse True 200 (Some BodyNull)) page0) = [doc1, doc2] \<and>
   documents (loadDocuments (HttpResponse True 200 (Some BodyNull)) page0) \<noteq> [] \<and>
   messageContainer (loadDocuments (HttpResponse True 200 (Some BodyNull)) page0) =
     Some [\<lparr>toast_text = ''Error al cargar documentos: '', toast_error = Some TypeError,
            toast_type = ''error''\<rparr>]"
  by (simp add: loadDocuments_null load_error_toast_def page0_def)

section \<open>The documents table\<close>

lemma take_length_eq_iff: "take (length q) s = q \<longleftrightarrow> (\<exists>suf. s = q @ suf)"
proof
  assume "take (length q) s = q"
  then have "s = q @ drop (length q) s" by (metis append_take_drop_id)
  then show "\<exists>suf. s = q @ suf" ..
next
  assume "\<exists>suf. s = q @ suf"
  then show "take (length q) s = q" by auto
qed

lemma substring_Cons:
  "substring q (c # cs) \<longleftrightarrow> (\<exists>suf. c # cs = q @ suf) \<or> substring q cs"
proof
  assume "substring q (c # cs)"
  then obtain pre suf where eq: "c # cs = pre @ q @ suf" by (auto simp add: substring_def)
  show "(\<exists>suf. c # cs = q @ suf) \<or> substring q cs"
  proof (cases pre)
    case Nil
    with eq show ?thesis by auto
  next
    case (Cons a pre')
    with eq have "cs = pre' @ q @ suf" by simp
    then show ?thesis by (auto simp add: substring_def)
  qed
next
  assume "(\<exists>suf. c # cs = q @ suf) \<or> substring q cs"
  then show "substring q (c # cs)"
  proof
    assume "\<exists>suf. c # cs = q @ suf"
    then obtain suf where "c # cs = [] @ q @ suf" by auto
    then show ?thesis unfolding substring_def by blast
  next
    assume "substring q cs"
    then obtain pre suf where "cs = pre @ q @ suf" by (auto simp add: substring_def)
    then have "c # cs = (c # pre) @ q @ suf" by simp
    then show ?thesis unfolding substring_def by blast
  qed
qed

lemma includes_str_iff: "includes_str s q \<longleftrightarrow> substring q s"
proof (induction s)
  case Nil
  show ?case by (auto simp add: substring_def)
next
  case (Cons c cs)
  have "includes_str (c # cs) q \<longleftrightarrow> take (length q) (c # cs) = q \<or> includes_str cs q"
    by simp
  also have "\<dots> \<longleftrightarrow> (\<exists>suf. c # cs = q @ suf) \<or> substring q cs"
    by (simp only: take_length_eq_iff Cons.IH)
  also have "\<dots> \<longleftrightarrow> substring q (c # cs)" by (simp only: substring_Cons)
  finally show ?case .
qed

lemma substring_code [code]: "substring q s = includes_str s q"
  by (simp add: includes_str_iff)

lemma filtered_docs:
  "(let filteredDocs = docs;
        filteredDocs =
          (if flt \<noteq> ''todos''
           then filter (\<lambda>d. estado_procesamiento d = Some flt) filteredDocs
           else filteredDocs);
        filteredDocs =
          (if trim query \<noteq> []
           then
             let q = toLowerCase query
             in filter (\<lambda>d.
                  includes_str (toLowerCase (or_empty (nombre_pdf d))) q \<or>
                  includes_str (toLowerCase (or_empty (filename d))) q \<or>
                  includes_str (toLowerCase (or_empty (dominio_origen d))) q) filteredDocs
           else filteredDocs)
    in f filteredDocs) = f (filter (row_expected flt query) docs)"
  by (auto simp add: Let_def row_expected_def includes_str_iff intro!: arg_cong [where f = f] filter_cong)

text \<open>
  C9. On a page that has the table body, \<^verbatim>\<open>renderTable\<close> changes the table body only, and
  the rows are those of the documents that satisfy \<open>row_expected\<close>, in the order of the list:
  a document has a row exactly when the filter is \<^verbatim>\<open>todos\<close> or equals its status, and the
  trimmed query is empty or the lowercased query occurs in its lowercased name, file name or
  origin domain. When no document qualifies, the placeholder row stands alone. A
  document whose status is a legacy English alias has no row under a Spanish filter value.
\<close>

theorem renderTable_rows:
  assumes "tbody p = Some old"
  shows
   "renderTable docs flt query p =
      p\<lparr>tbody := Some (if filter (row_expected flt query) docs = [] then [EmptyState]
                       else map DocRow (filter (row_expected flt query) docs))\<rparr> \<and>
    (\<forall>d. DocRow d \<in> set (the (tbody (renderTable docs flt query p))) \<longleftrightarrow>
          d \<in> set docs \<and> row_expected flt query d) \<and>
    (\<forall>d. estado_procesamiento d \<in> Some ` legacy_status \<and> flt \<in> spanish_status \<longrightarrow>
          DocRow d \<notin> set (the (tbody (renderTable docs flt query p))))"
proof -
  have eq: "renderTable docs flt query p =
      p\<lparr>tbody := Some (if filter (row_expected flt query) docs = [] then [EmptyState]
                       else map DocRow (filter (row_expected flt query) docs))\<rparr>"
    unfolding renderTable_def using assms
    by (simp only: option.case filtered_docs) simp
  have rows: "\<And>d. DocRow d \<in> set (the (tbody (renderTable docs flt query p))) \<longleftrightarrow>
          d \<in> set docs \<and> row_expected flt query d"
    by (auto simp add: eq filter_empty_conv)
  have legacy: "\<And>d. estado_procesamiento d \<in> Some ` legacy_status \<Longrightarrow> flt \<in> spanish_status
      \<Longrightarrow> \<not> row_expected flt query d"
    by (auto simp add: row_expected_def legacy_status_def spanish_status_def)
  from eq rows legacy show ?thesis by blast
qed

lemma row_examples:
  "filter (row_expected ''procesado'' ''INF'') [doc1, doc2] = [doc1]"
  "filter (row_expected ''pendiente'' []) [doc1, doc2] = []"
  "filter (row_expected ''todos'' '' '') [doc1, doc2] = [doc1, doc2]"
  by code_simp+

theorem renderTable_rows_witness:
  "tbody (renderTable [doc1, doc2] ''procesado'' ''INF'' page0) = Some [DocRow doc1] \<and>
   tbody (renderTable [doc1, doc2] ''pendiente'' [] page0) = Some [EmptyState] \<and>
   tbody (renderTable [doc1, doc2] ''todos'' '' '' page0) = Some [DocRow doc1, DocRow doc2]"
proof -
  have tb: "tbody page0 = Some []" by (simp add: page0_def)
  have e1: "renderTable [doc1, doc2] ''procesado'' ''INF'' page0 = page0\<lparr>tbody := Some [DocRow doc1]\<rparr>"
    using renderTable_rows [OF tb, of "[doc1, doc2]" "''procesado''" "''INF''"]
    unfolding row_examples by simp
  have e2: "renderTable [doc1, doc2] ''pendiente'' [] page0 = page0\<lparr>tbody := Some [EmptyState]\<rparr>"
    using renderTable_rows [OF tb, of "[doc1, doc2]" "''pendiente''" "[]"]
    unfolding row_examples by simp
  have e3: "renderTable [doc1, doc2] ''todos'' '' '' page0 =
      page0\<lparr>tbody := Some [DocRow doc1, DocRow doc2]\<rparr>"
    using renderTable_rows [OF tb, of "[doc1, doc2]" "''todos''" "'' ''"]
    unfolding row_examples by simp
  show ?thesis by (simp add: e1 e2 e3)
qed

section \<open>Uploading a file\<close>

lemma loadDocuments_requests:
  "requests (loadDocuments reply p) = requests p @ [documents_request]"
proof -
  have a: "\<And>e q. requests (load_failed e q) = requests q"
    by (simp add: load_failed_def showMessage_def throw_def split: option.splits)
  have b: "\<And>q s. requests (PdfHandler_renderTable s q) = requests q"
    by (simp add: PdfHandler_renderTable_def renderTable_def Let_def split: option.splits)
  have c: "\<And>q. requests (disableChat q) = requests q"
    by (simp add: disableChat_def clearMessages_def Let_def)
  show ?thesis
    by (simp add: loadDocuments_def Let_def a b c fetch_def
        split: fetch_result.splits option.splits docs_body.splits)
qed

lemma upload_failed_requests: "requests (upload_failed e p) = requests p"
  by (simp add: upload_failed_def FileHandler_showMessage_def)

lemma uploadFile_requests:
  "requests (uploadFile reply docsReply f p) = requests p \<or>
   requests (uploadFile reply docsReply f p) = requests p @ [upload_request f] \<or>
   requests (uploadFile reply docsReply f p) = requests p @ [upload_request f, documents_request]"
  by (simp add: uploadFile_def Let_def loadDocuments_requests upload_failed_requests fetch_def
      FileHandler_showMessage_def
      split: fetch_result.splits option.splits sum.splits)

lemma uploads_pdf_only_append:
  "uploads_pdf_only (xs @ ys) \<longleftrightarrow> uploads_pdf_only xs \<and> uploads_pdf_only ys"
  by (simp add: uploads_pdf_only_def)

lemma uploads_pdf_only_new:
  "file_type f = ''application/pdf'' \<Longrightarrow> uploads_pdf_only [upload_request f, documents_request]"
  "file_type f = ''application/pdf'' \<Longrightarrow> uploads_pdf_only [upload_request f]"
  "uploads_pdf_only []"
  by (simp_all add: uploads_pdf_only_def upload_request_def documents_request_def)

text \<open>
  C5. When the file chosen in the file input is not of type \<^verbatim>\<open>application/pdf\<close>,
  \<^verbatim>\<open>handleFileSelect\<close> shows the error message, clears the file input and does nothing
  else: no request is sent. Whatever the chosen files are, every \<^verbatim>\<open>POST /api/upload-pdf\<close>
  that \<^verbatim>\<open>handleFileSelect\<close> sends carries one file of type \<^verbatim>\<open>application/pdf\<close> in the
  multipart field \<^verbatim>\<open>pdf_file\<close>.
\<close>

theorem handleFileSelect_rejects_non_pdf:
  "(file_type f \<noteq> ''application/pdf'' \<longrightarrow>
      handleFileSelect reply docsReply (f # others) p =
        p\<lparr>uploadMessage := Some \<lparr>um_text = ''Solo se permiten archivos PDF'',
                                   um_type = ''error'', um_show = True\<rparr>,
          pdfFile := []\<rparr> \<and>
      requests (handleFileSelect reply docsReply (f # others) p) = requests p) \<and>
   (\<exists>new. requests (handleFileSelect reply docsReply files p) = requests p @ new \<and>
          uploads_pdf_only new)"
proof (intro conjI impI)
  assume "file_type f \<noteq> ''application/pdf''"
  then show "handleFileSelect reply docsReply (f # others) p =
        p\<lparr>uploadMessage := Some \<lparr>um_text = ''Solo se permiten archivos PDF'',
                                   um_type = ''error'', um_show = True\<rparr>,
          pdfFile := []\<rparr>"
    by (simp add: handleFileSelect_def FileHandler_showMessage_def)
  then show "requests (handleFileSelect reply docsReply (f # others) p) = requests p"
    by simp
next
  show "\<exists>new. requests (handleFileSelect reply docsReply files p) = requests p @ new \<and>
          uploads_pdf_only new"
  proof (cases files)
    case Nil
    then have "requests (handleFileSelect reply docsReply files p) = requests p @ []"
      by (simp add: handleFileSelect_def)
    with uploads_pdf_only_new(3) show ?thesis by blast
  next
    case (Cons g others)
    show ?thesis
    proof (cases "file_type g = ''application/pdf''")
      case False
      with Cons have "requests (handleFileSelect reply docsReply files p) = requests p @ []"
        by (simp add: handleFileSelect_def FileHandler_showMessage_def)
      with uploads_pdf_only_new(3) show ?thesis by blast
    next
      case True
      with Cons have eq: "handleFileSelect reply docsReply files p =
          uploadFile reply docsReply g (p\<lparr>selectedFile := Some g\<rparr>)"
        by (simp add: handleFileSelect_def)
      from uploadFile_requests [of reply docsReply g "p\<lparr>selectedFile := Some g\<rparr>"]
      have "requests (handleFileSelect reply docsReply files p) = requests p @ [] \<or>
            requests (handleFileSelect reply docsReply files p) = requests p @ [upload_request g] \<or>
            requests (handleFileSelect reply docsReply files p) =
              requests p @ [upload_request g, documents_request]"
        by (simp add: eq)
      with uploads_pdf_only_new(1) [OF True] uploads_pdf_only_new(2) [OF True] uploads_pdf_only_new(3)
      show ?thesis by blast
    qed
  qed
qed

theorem handleFileSelect_rejects_non_pdf_witness:
  "uploadMessage (handleFileSelect NetworkError NetworkError [txt0] page0) =
     Some \<lparr>um_text = ''Solo se permiten archivos PDF'', um_type = ''error'', um_show = True\<rparr> \<and>
   pdfFile (handleFileSelect NetworkError NetworkError [txt0] page0) = [] \<and>
   requests (handleFileSelect NetworkError NetworkError [txt0] page0) = [] \<and>
   (\<exists>new. requests (handleFileSelect NetworkError NetworkError [pdf0] page0) = requests page0 @ new \<and>
          uploads_pdf_only new)"
proof -
  have ty: "file_type txt0 \<noteq> ''application/pdf''" by (simp add: txt0_def)
  have rq: "requests page0 = []" by (simp add: page0_def)
  from handleFileSelect_rejects_non_pdf [of txt0 NetworkError NetworkError "[]" page0 "[pdf0]"] ty rq
  show ?thesis by simp
qed

lemma handleFileSelect_uploads_pdf:
  "requests (handleFileSelect NetworkError NetworkError [pdf0] page0) = [upload_request pdf0]"
  by (simp add: handleFileSelect_def uploadFile_def pdf0_def page0_def Let_def fetch_def
      FileHandler_showMessage_def upload_failed_def)

text \<open>
  The other path to the upload, \<^verbatim>\<open>handleUpload\<close>, sends the stored file only, and
  \<^verbatim>\<open>handleFileSelect\<close> stores a file only after the type check.
\<close>

lemma handleUpload_requests:
  assumes "selectedFile p = Some f"
  shows "requests (handleUpload reply docsReply p) = requests p \<or>
   requests (handleUpload reply docsReply p) = requests p @ [upload_request f] \<or>
   requests (handleUpload reply docsReply p) = requests p @ [upload_request f, documents_request]"
  using assms
  by (simp add: handleUpload_def Let_def loadDocuments_requests upload_failed_requests fetch_def
      FileHandler_showMessage_def showProgress_def removeFile_def
      split: fetch_result.splits option.splits sum.splits)

lemma uploadFile_selectedFile:
  "selectedFile (uploadFile reply docsReply f p) = selectedFile p \<or>
   selectedFile (uploadFile reply docsReply f p) = None"
proof -
  have ld: "\<And>r q. selectedFile (loadDocuments r q) = selectedFile q"
    by (simp add: loadDocuments_def load_failed_def showMessage_def throw_def fetch_def
        PdfHandler_renderTable_def renderTable_def disableChat_def clearMessages_def Let_def
        split: fetch_result.splits option.splits docs_body.splits)
  show ?thesis
    by (simp add: uploadFile_def Let_def ld upload_failed_def fetch_def
        FileHandler_showMessage_def split: fetch_result.splits option.splits sum.splits)
qed

lemma handleFileSelect_selectedFile:
  assumes "selectedFile (handleFileSelect reply docsReply files p) = Some g"
  shows "file_type g = ''application/pdf'' \<or> selectedFile p = Some g"
proof (cases files)
  case Nil
  with assms show ?thesis by (simp add: handleFileSelect_def)
next
  case (Cons f others)
  show ?thesis
  proof (cases "file_type f = ''application/pdf''")
    case False
    with Cons assms show ?thesis
      by (simp add: handleFileSelect_def FileHandler_showMessage_def)
  next
    case True
    with Cons assms
    have "selectedFile (uploadFile reply docsReply f (p\<lparr>selectedFile := Some f\<rparr>)) = Some g"
      by (simp add: handleFileSelect_def)
    with uploadFile_selectedFile [of reply docsReply f "p\<lparr>selectedFile := Some f\<rparr>"]
    have "f = g" by auto
    with True show ?thesis by simp
  qed
qed

section \<open>The details of a document\<close>

lemma processing_section_number:
  assumes "obj_get info ''processing_time'' = JNum n" and "fixedText eng 2 (of_int n) \<noteq> []"
  shows "processing_section eng info =
    Inr (DetailGrid (''Informaci'' @ [CHR 0xF3] @ ''n de Procesamiento'')
      [(''Fecha de procesamiento:'', formatDate_long eng (obj_get info ''processed_at'')),
       (''Tiempo de procesamiento:'', fixedText eng 2 (of_int n) @ '' segundos''),
       (''Versi'' @ [CHR 0xF3] @ ''n del procesador:'',
          toStr (js_or (obj_get info ''version'') (JStr ''N/A'')))])"
  using assms by (simp add: processing_section_def processing_time_text_def)

text \<open>
  C4, as the code has it. The details view reads three members of \<open>processing_info\<close>:
  \<^verbatim>\<open>processed_at\<close> for the processing date, \<^verbatim>\<open>processing_time\<close> for the duration and
  \<^verbatim>\<open>version\<close> for the processor version. Two records that agree on these three give the same
  section; a numeric \<^verbatim>\<open>processing_time\<close> is shown with two decimals; and the section is
  part of the details of every document that has a \<open>processing_info\<close>.
\<close>

theorem processing_section_reads:
  "(obj_get info ''processed_at'' = obj_get info' ''processed_at'' \<and>
    obj_get info ''processing_time'' = obj_get info' ''processing_time'' \<and>
    obj_get info ''version'' = obj_get info' ''version'' \<longrightarrow>
      processing_section eng info = processing_section eng info') \<and>
   (obj_get info ''processing_time'' = JNum n \<and> fixedText eng 2 (of_int n) \<noteq> [] \<longrightarrow>
      processing_section eng info =
        Inr (DetailGrid (''Informaci'' @ [CHR 0xF3] @ ''n de Procesamiento'')
          [(''Fecha de procesamiento:'', formatDate_long eng (obj_get info ''processed_at'')),
           (''Tiempo de procesamiento:'', fixedText eng 2 (of_int n) @ '' segundos''),
           (''Versi'' @ [CHR 0xF3] @ ''n del procesador:'',
              toStr (js_or (obj_get info ''version'') (JStr ''N/A'')))])) \<and>
   (processing_info d = Some info \<and> processing_section eng info = Inr sec \<longrightarrow>
      (\<exists>before. generateDetailContent eng d =
         Inr (before @ [sec, json_section eng (contenido_json d)])))"
proof (intro conjI impI)
  assume "obj_get info ''processed_at'' = obj_get info' ''processed_at'' \<and>
    obj_get info ''processing_time'' = obj_get info' ''processing_time'' \<and>
    obj_get info ''version'' = obj_get info' ''version''"
  then show "processing_section eng info = processing_section eng info'"
    by (simp add: processing_section_def split: sum.splits)
next
  assume "obj_get info ''processing_time'' = JNum n \<and> fixedText eng 2 (of_int n) \<noteq> []"
  then show "processing_section eng info =
        Inr (DetailGrid (''Informaci'' @ [CHR 0xF3] @ ''n de Procesamiento'')
          [(''Fecha de procesamiento:'', formatDate_long eng (obj_get info ''processed_at'')),
           (''Tiempo de procesamiento:'', fixedText eng 2 (of_int n) @ '' segundos''),
           (''Versi'' @ [CHR 0xF3] @ ''n del procesador:'',
              toStr (js_or (obj_get info ''version'') (JStr ''N/A'')))])"
    by (simp add: processing_section_number)
next
  assume a: "processing_info d = Some info \<and> processing_section eng info = Inr sec"
  show "\<exists>before. generateDetailContent eng d =
         Inr (before @ [sec, json_section eng (contenido_json d)])"
  proof (cases "content_info d")
    case None
    with a have "generateDetailContent eng d =
        Inr ([basic_section eng d] @ [sec, json_section eng (contenido_json d)])"
      by (simp add: generateDetailContent_def Let_def)
    then show ?thesis by blast
  next
    case (Some ci)
    with a have "generateDetailContent eng d =
        Inr ([basic_section eng d, content_section eng ci] @
             [sec, json_section eng (contenido_json d)])"
      by (simp add: generateDetailContent_def Let_def)
    then show ?thesis by blast
  qed
qed

lemma doc1_info:
  "obj_get (the (processing_info doc1)) ''processing_time'' = JNum 12"
  "obj_get (the (processing_info doc1)) ''version'' = JStr ''1.0''"
  "obj_get (the (processing_info doc1)) ''processed_at'' = JStr ''2024-05-01T10:00:12''"
  by (simp_all add: doc1_def obj_get_def)

theorem processing_section_reads_witness:
  "processing_section engine0 (the (processing_info doc1)) =
     Inr (DetailGrid (''Informaci'' @ [CHR 0xF3] @ ''n de Procesamiento'')
       [(''Fecha de procesamiento:'', ''1 de mayo de 2024, 10:00''),
        (''Tiempo de procesamiento:'', ''12.00 segundos''),
        (''Versi'' @ [CHR 0xF3] @ ''n del procesador:'', ''1.0'')]) \<and>
   processing_section engine0 [(''processing_time'', JNum 12), (''version'', JStr ''1.0''),
       (''processed_at'', JStr ''2024-05-01T10:00:12''), (''pipeline_version'', JStr ''9'')] =
     processing_section engine0 (the (processing_info doc1))"
proof -
  have fx: "fixedText engine0 2 (of_int 12) \<noteq> []" by (simp add: engine0_def)
  have same: "obj_get [(''processing_time'', JNum 12), (''version'', JStr ''1.0''),
       (''processed_at'', JStr ''2024-05-01T10:00:12''), (''pipeline_version'', JStr ''9'')]
         ''processed_at'' = obj_get (the (processing_info doc1)) ''processed_at'' \<and>
     obj_get [(''processing_time'', JNum 12), (''version'', JStr ''1.0''),
       (''processed_at'', JStr ''2024-05-01T10:00:12''), (''pipeline_version'', JStr ''9'')]
         ''processing_time'' = obj_get (the (processing_info doc1)) ''processing_time'' \<and>
     obj_get [(''processing_time'', JNum 12), (''version'', JStr ''1.0''),
       (''processed_at'', JStr ''2024-05-01T10:00:12''), (''pipeline_version'', JStr ''9'')]
         ''version'' = obj_get (the (processing_info doc1)) ''version''"
    by (simp add: doc1_info) (simp add: obj_get_def)
  from processing_section_reads
    [of "[(''processing_time'', JNum 12), (''version'', JStr ''1.0''),
       (''processed_at'', JStr ''2024-05-01T10:00:12''), (''pipeline_version'', JStr ''9'')]"
        "the (processing_info doc1)" engine0 12 doc1 "DetailGrid [] []"]
    processing_section_reads [of "the (processing_info doc1)" "[]" engine0 12 doc1 "DetailGrid [] []"]
    same fx
  show ?thesis
    by (simp add: doc1_info formatDate_long_def js_or_def) (simp add: engine0_def)
qed

text \<open>
  C4 as stated fails: a record with the members \<^verbatim>\<open>processed_at\<close>,
  \<^verbatim>\<open>processing_time_seconds\<close> and \<^verbatim>\<open>pipeline_version\<close> is shown with the date, but with
  \<^verbatim>\<open>N/A\<close> for the duration and for the version, since neither member is read.
\<close>

theorem spec_field_names_not_read:
  "processing_info doc2 =
     Some [(''processed_at'', JStr ''2024-05-01T10:00:12''),
           (''processing_time_seconds'', JNum 12), (''pipeline_version'', JStr ''1.0'')] \<and>
   processing_section engine0
       [(''processed_at'', JStr ''2024-05-01T10:00:12''),
        (''processing_time_seconds'', JNum 12), (''pipeline_version'', JStr ''1.0'')] =
     Inr (DetailGrid (''Informaci'' @ [CHR 0xF3] @ ''n de Procesamiento'')
       [(''Fecha de procesamiento:'', ''1 de mayo de 2024, 10:00''),
        (''Tiempo de procesamiento:'', ''N/A segundos''),
        (''Versi'' @ [CHR 0xF3] @ ''n del procesador:'', ''N/A'')])"
  by (simp add: doc2_def processing_section_def processing_time_text_def obj_get_def
      Object_prototype_def formatDate_long_def js_or_def engine0_def)

section \<open>The pipeline and the chat engine of the specification\<close>

lemma step_invariant:
  assumes "step d e = Some d'"
    and "document_content_info d \<noteq> None \<longleftrightarrow> document_status d = Processed"
    and "document_status d = Processed \<longrightarrow> document_content_json d \<noteq> None"
  shows "(document_content_info d' \<noteq> None \<longleftrightarrow> document_status d' = Processed) \<and>
         (document_status d' = Processed \<longrightarrow> document_content_json d' \<noteq> None)"
  using assms by (cases e) (auto split: if_splits)

lemma run_invariant:
  assumes "run d es = Some d'"
    and "document_content_info d \<noteq> None \<longleftrightarrow> document_status d = Processed"
    and "document_status d = Processed \<longrightarrow> document_content_json d \<noteq> None"
  shows "(document_content_info d' \<noteq> None \<longleftrightarrow> document_status d' = Processed) \<and>
         (document_status d' = Processed \<longrightarrow> document_content_json d' \<noteq> None)"
  using assms
proof (induction es arbitrary: d)
  case Nil
  then show ?case by simp
next
  case (Cons e es)
  from Cons.prems(1) obtain d1 where s: "step d e = Some d1" and r: "run d1 es = Some d'"
    by (auto split: option.splits)
  from step_invariant [OF s Cons.prems(2) Cons.prems(3)]
  have "document_content_info d1 \<noteq> None \<longleftrightarrow> document_status d1 = Processed"
    and "document_status d1 = Processed \<longrightarrow> document_content_json d1 \<noteq> None"
    by blast+
  with r show ?case by (rule Cons.IH)
qed

text \<open>
  C2. Whatever the pipeline did to a document since its upload, its status is
  \<open>processed\<close> exactly when \<open>content_info\<close> and \<open>content_json\<close> are both present: no document
  that reads as \<open>processed\<close> lacks either.
\<close>

theorem processed_iff_content:
  assumes "run (upload i name size' received origin) es = Some d"
  shows "document_status d = Processed \<longleftrightarrow>
         document_content_info d \<noteq> None \<and> document_content_json d \<noteq> None"
proof -
  have "document_content_info (upload i name size' received origin) \<noteq> None \<longleftrightarrow>
        document_status (upload i name size' received origin) = Processed"
    and "document_status (upload i name size' received origin) = Processed \<longrightarrow>
        document_content_json (upload i name size' received origin) \<noteq> None"
    by (simp_all add: upload_def)
  from run_invariant [OF assms this] show ?thesis by blast
qed

theorem processed_iff_content_witness:
  "document_status (the (run (upload 1 ''a.pdf'' 10 ''2024-05-01'' None)
      [Claim, Complete \<lparr>total_pages = 3, total_chars = 9, has_images = True,
                        images_with_text = 1, has_text = True\<rparr>
                      \<lparr>pages_text = [''Hola'', ''Mundo'', []], keyword_list = [], ocr_excerpts = [''Mundo'']\<rparr>
                      \<lparr>processed_at = ''2024-05-01'', processing_time_seconds = 2,
                        pipeline_version = ''1''\<rparr>])) = Processed \<and>
   document_content_json (the (run (upload 1 ''a.pdf'' 10 ''2024-05-01'' None)
      [Claim, Complete \<lparr>total_pages = 3, total_chars = 9, has_images = True,
                        images_with_text = 1, has_text = True\<rparr>
                      \<lparr>pages_text = [''Hola'', ''Mundo'', []], keyword_list = [], ocr_excerpts = [''Mundo'']\<rparr>
                      \<lparr>processed_at = ''2024-05-01'', processing_time_seconds = 2,
                        pipeline_version = ''1''\<rparr>])) \<noteq> None \<and>
   document_content_info (the (run (upload 1 ''a.pdf'' 10 ''2024-05-01'' None)
      [Claim, Fail \<lparr>processed_at = ''2024-05-01'', processing_time_seconds = 2,
                    pipeline_version = ''1''\<rparr> None])) = None"
proof -
  let ?ci = "\<lparr>total_pages = 3, total_chars = 9, has_images = True,
                        images_with_text = 1, has_text = True\<rparr>"
  let ?cj = "\<lparr>pages_text = [''Hola'', ''Mundo'', []], keyword_list = [], ocr_excerpts = [''Mundo'']\<rparr>"
  let ?pr = "\<lparr>processed_at = ''2024-05-01'', processing_time_seconds = 2,
                        pipeline_version = ''1''\<rparr>"
  let ?d0 = "upload 1 ''a.pdf'' 10 ''2024-05-01'' None"
  have r1: "run ?d0 [Claim, Complete ?ci ?cj ?pr] =
      Some (?d0\<lparr>document_status := Processed, document_content_info := Some ?ci,
                  document_content_json := Some ?cj, document_processing_info := Some ?pr\<rparr>)"
    by (simp add: upload_def)
  have r2: "run ?d0 [Claim, Fail ?pr None] =
      Some (?d0\<lparr>document_status := Error, document_processing_info := Some ?pr,
                  document_content_json := None\<rparr>)"
    by (simp add: upload_def)
  from processed_iff_content [OF r1] processed_iff_content [OF r2]
  show ?thesis by (simp add: upload_def)
qed

text \<open>
  The browser does not look at the status: \<^verbatim>\<open>selectDocument\<close> enables the chat for every
  document of the list, so the precondition of a chat question rests on the server.
\<close>

lemma selectDocument_any_status:
  assumes "find (\<lambda>d. doc_id d = docId) (documents p) = Some d" and "chatHandler p"
  shows "currentDocumentId (selectDocument docId p) = Some docId"
  using assms
  by (simp add: selectDocument_def Let_def showMessage_def throw_def enableChat_def
      clearMessages_def split: option.splits)

text \<open>
  C1. A chat question for a document whose status is not \<open>processed\<close> is rejected with
  \<open>DocumentNotReady\<close>, and the browser, given the \<^verbatim>\<open>{error}\<close> reply of that rejection, adds the
  question and an error message to the chat log: no generated answer is shown.
\<close>

theorem chat_requires_processed:
  "(store did = Some d \<and> document_status d \<noteq> Processed \<longrightarrow>
      answer store generate did question = Inl DocumentNotReady) \<and>
   (chatInput p = Some inp \<and> trim (el_value inp) \<noteq> [] \<and> id_set (currentDocumentId p) \<longrightarrow>
      chatMessages (sendMessage (chat_reply describe ok st (Inl DocumentNotReady)) p) =
        map_option
          (\<lambda>ms. ms @ [ChatMessage ''user'' (trim (el_value inp)),
                       ChatMessage ''assistant''
                         (''Error: '' @ toStr (js_or (describe DocumentNotReady)
                            (JStr ''No se pudo procesar la pregunta'')))])
          (chatMessages p))"
proof (intro conjI impI)
  assume "store did = Some d \<and> document_status d \<noteq> Processed"
  then show "answer store generate did question = Inl DocumentNotReady"
    by (simp add: answer_def)
next
  let ?reply = "chat_reply describe ok st (Inl DocumentNotReady)"
  assume a: "chatInput p = Some inp \<and> trim (el_value inp) \<noteq> [] \<and> id_set (currentDocumentId p)"
  have get: "obj_get [(''error'', describe DocumentNotReady)] ''response'' = JUndefined"
    "obj_get [(''error'', describe DocumentNotReady)] ''error'' = describe DocumentNotReady"
    by (simp_all add: obj_get_def Object_prototype_def)
  have failed: "chat_failed ?reply" by (simp add: chat_reply_def chat_failed_def get)
  have shown: "chat_error_text ?reply =
      ''Error: '' @ toStr (js_or (describe DocumentNotReady)
         (JStr ''No se pudo procesar la pregunta''))"
    by (simp add: chat_reply_def chat_error_text_def get)
  from a failed have "sendMessage ?reply p =
      p\<lparr>chatMessages := map_option
           (\<lambda>ms. ms @ [ChatMessage ''user'' (trim (el_value inp)),
                        ChatMessage ''assistant'' (chat_error_text ?reply)]) (chatMessages p),
        chatInput := Some (inp\<lparr>el_value := [], el_disabled := False\<rparr>),
        sendChatBtn := map_option
           (\<lambda>b. b\<lparr>btn_disabled := False, btn_text := ''Enviar''\<rparr>) (sendChatBtn p),
        requests := requests p @
           [chat_request (trim (el_value inp)) (the (currentDocumentId p))]\<rparr>"
    by (simp add: sendMessage_failed)
  then show "chatMessages (sendMessage ?reply p) =
        map_option
          (\<lambda>ms. ms @ [ChatMessage ''user'' (trim (el_value inp)),
                       ChatMessage ''assistant''
                         (''Error: '' @ toStr (js_or (describe DocumentNotReady)
                            (JStr ''No se pudo procesar la pregunta'')))])
          (chatMessages p)"
    by (simp add: shown)
qed

theorem chat_requires_processed_witness:
  "answer (\<lambda>i. if i = 2 then Some (upload 2 ''acta.pdf'' 10 ''2024-05-01'' None) else None)
      (\<lambda>cj q. Some ''respuesta'') 2 ''hola'' = Inl DocumentNotReady \<and>
   chatMessages (sendMessage (chat_reply (\<lambda>e. JStr ''DocumentNotReady'') False 409
       (Inl DocumentNotReady)) (enableChat 2 page0)) =
     Some [ChatMessage ''user'' ''hola'', ChatMessage ''assistant'' ''Error: DocumentNotReady'']"
proof -
  let ?inp = "\<lparr>el_value = '' hola '', el_disabled = False,
           el_placeholder = ''Escribe tu pregunta sobre el documento...''\<rparr>"
  let ?store = "\<lambda>i::nat. if i = 2 then Some (upload 2 ''acta.pdf'' 10 ''2024-05-01'' None) else None"
  have st: "?store 2 = Some (upload 2 ''acta.pdf'' 10 ''2024-05-01'' None) \<and>
      document_status (upload 2 ''acta.pdf'' 10 ''2024-05-01'' None) \<noteq> Processed"
    by (simp add: upload_def)
  have inp: "chatInput (enableChat 2 page0) = Some ?inp \<and> trim (el_value ?inp) \<noteq> [] \<and>
      id_set (currentDocumentId (enableChat 2 page0))"
    by (simp add: enableChat_fields page0_def trim_hola id_set_def)
  have msgs: "chatMessages (enableChat 2 page0) = Some []"
    by (simp add: enableChat_def clearMessages_def Let_def page0_def)
  from chat_requires_processed
    [of ?store 2 "upload 2 ''acta.pdf'' 10 ''2024-05-01'' None" "\<lambda>cj q. Some ''respuesta''" "''hola''"
        "enableChat 2 page0" ?inp "\<lambda>e. JStr ''DocumentNotReady''" False 409] st inp
  show ?thesis by (simp add: msgs trim_hola js_or_def)
qed

end
